theory Spec2Isabelle
  imports Complex_Main "HOL-Library.Sublist"
begin

section \<open>Strings\<close>

text \<open>
  The application is a React Native parking finder (\<^verbatim>\<open>App.tsx\<close> and its variants), a
  location hook (\<^verbatim>\<open>geoLocation.tsx\<close>) and an Express relay.

  A JavaScript string is the list of its UTF-16 code units, numbers below \<open>0x10000\<close>.
  \<^verbatim>\<open>ascii\<close> writes a string of ASCII characters.
\<close>

type_synonym js_string = "nat list"

definition ascii :: "string \<Rightarrow> js_string" where
  "ascii s = map of_char s"

subsection \<open>Case mapping tables\<close>

text \<open>
  \<^verbatim>\<open>String.prototype.toLowerCase\<close> lowers a string by the locale-independent case mappings
  of the Unicode Character Database. The three tables below are those of version 14.0 of
  the database.
\<close>

text \<open>
  The simple lowercase mappings, as rules \<open>(lo, hi, step, target)\<close>: the code points
  \<open>lo\<close>, \<open>lo + step\<close>, ... up to \<open>hi\<close> map to \<open>target\<close>, \<open>target + step\<close>, ...
\<close>

definition lower_rules :: "(nat \<times> nat \<times> nat \<times> nat) list" where
  "lower_rules =
    [
     (0x41, 0x5A, 1, 0x61), (0xC0, 0xD6, 1, 0xE0), (0xD8, 0xDE, 1, 0xF8), (0x100, 0x12E, 2, 0x101),
     (0x132, 0x136, 2, 0x133), (0x139, 0x147, 2, 0x13A), (0x14A, 0x176, 2, 0x14B), (0x178, 0x178, 1, 0xFF),
     (0x179, 0x17D, 2, 0x17A), (0x181, 0x181, 1, 0x253), (0x182, 0x184, 2, 0x183), (0x186, 0x186, 1, 0x254),
     (0x187, 0x187, 1, 0x188), (0x189, 0x18A, 1, 0x256), (0x18B, 0x18B, 1, 0x18C), (0x18E, 0x18E, 1, 0x1DD),
     (0x18F, 0x18F, 1, 0x259), (0x190, 0x190, 1, 0x25B), (0x191, 0x191, 1, 0x192), (0x193, 0x193, 1, 0x260),
     (0x194, 0x194, 1, 0x263), (0x196, 0x196, 1, 0x269), (0x197, 0x197, 1, 0x268), (0x198, 0x198, 1, 0x199),
     (0x19C, 0x19C, 1, 0x26F), (0x19D, 0x19D, 1, 0x272), (0x19F, 0x19F, 1, 0x275), (0x1A0, 0x1A4, 2, 0x1A1),
     (0x1A6, 0x1A6, 1, 0x280), (0x1A7, 0x1A7, 1, 0x1A8), (0x1A9, 0x1A9, 1, 0x283), (0x1AC, 0x1AC, 1, 0x1AD),
     (0x1AE, 0x1AE, 1, 0x288), (0x1AF, 0x1AF, 1, 0x1B0), (0x1B1, 0x1B2, 1, 0x28A), (0x1B3, 0x1B5, 2, 0x1B4),
     (0x1B7, 0x1B7, 1, 0x292), (0x1B8, 0x1B8, 1, 0x1B9), (0x1BC, 0x1BC, 1, 0x1BD), (0x1C4, 0x1C4, 1, 0x1C6),
     (0x1C5, 0x1C5, 1, 0x1C6), (0x1C7, 0x1C7, 1, 0x1C9), (0x1C8, 0x1C8, 1, 0x1C9), (0x1CA, 0x1CA, 1, 0x1CC),
     (0x1CB, 0x1DB, 2, 0x1CC), (0x1DE, 0x1EE, 2, 0x1DF), (0x1F1, 0x1F1, 1, 0x1F3), (0x1F2, 0x1F4, 2, 0x1F3),
     (0x1F6, 0x1F6, 1, 0x195), (0x1F7, 0x1F7, 1, 0x1BF), (0x1F8, 0x21E, 2, 0x1F9), (0x220, 0x220, 1, 0x19E),
     (0x222, 0x232, 2, 0x223), (0x23A, 0x23A, 1, 0x2C65), (0x23B, 0x23B, 1, 0x23C), (0x23D, 0x23D, 1, 0x19A),
     (0x23E, 0x23E, 1, 0x2C66), (0x241, 0x241, 1, 0x242), (0x243, 0x243, 1, 0x180), (0x244, 0x244, 1, 0x289),
     (0x245, 0x245, 1, 0x28C), (0x246, 0x24E, 2, 0x247), (0x370, 0x372, 2, 0x371), (0x376, 0x376, 1, 0x377),
     (0x37F, 0x37F, 1, 0x3F3), (0x386, 0x386, 1, 0x3AC), (0x388, 0x38A, 1, 0x3AD), (0x38C, 0x38C, 1, 0x3CC),
     (0x38E, 0x38F, 1, 0x3CD), (0x391, 0x3A1, 1, 0x3B1), (0x3A3, 0x3AB, 1, 0x3C3), (0x3CF, 0x3CF, 1, 0x3D7),
     (0x3D8, 0x3EE, 2, 0x3D9), (0x3F4, 0x3F4, 1, 0x3B8), (0x3F7, 0x3F7, 1, 0x3F8), (0x3F9, 0x3F9, 1, 0x3F2),
     (0x3FA, 0x3FA, 1, 0x3FB), (0x3FD, 0x3FF, 1, 0x37B), (0x400, 0x40F, 1, 0x450), (0x410, 0x42F, 1, 0x430),
     (0x460, 0x480, 2, 0x461), (0x48A, 0x4BE, 2, 0x48B), (0x4C0, 0x4C0, 1, 0x4CF), (0x4C1, 0x4CD, 2, 0x4C2),
     (0x4D0, 0x52E, 2, 0x4D1), (0x531, 0x556, 1, 0x561), (0x10A0, 0x10C5, 1, 0x2D00), (0x10C7, 0x10C7, 1, 0x2D27),
     (0x10CD, 0x10CD, 1, 0x2D2D), (0x13A0, 0x13EF, 1, 0xAB70), (0x13F0, 0x13F5, 1, 0x13F8), (0x1C90, 0x1CBA, 1, 0x10D0),
     (0x1CBD, 0x1CBF, 1, 0x10FD), (0x1E00, 0x1E94, 2, 0x1E01), (0x1E9E, 0x1E9E, 1, 0xDF), (0x1EA0, 0x1EFE, 2, 0x1EA1),
     (0x1F08, 0x1F0F, 1, 0x1F00), (0x1F18, 0x1F1D, 1, 0x1F10), (0x1F28, 0x1F2F, 1, 0x1F20), (0x1F38, 0x1F3F, 1, 0x1F30),
     (0x1F48, 0x1F4D, 1, 0x1F40), (0x1F59, 0x1F5F, 2, 0x1F51), (0x1F68, 0x1F6F, 1, 0x1F60), (0x1F88, 0x1F8F, 1, 0x1F80),
     (0x1F98, 0x1F9F, 1, 0x1F90), (0x1FA8, 0x1FAF, 1, 0x1FA0), (0x1FB8, 0x1FB9, 1, 0x1FB0), (0x1FBA, 0x1FBB, 1, 0x1F70),
     (0x1FBC, 0x1FBC, 1, 0x1FB3), (0x1FC8, 0x1FCB, 1, 0x1F72), (0x1FCC, 0x1FCC, 1, 0x1FC3), (0x1FD8, 0x1FD9, 1, 0x1FD0),
     (0x1FDA, 0x1FDB, 1, 0x1F76), (0x1FE8, 0x1FE9, 1, 0x1FE0), (0x1FEA, 0x1FEB, 1, 0x1F7A), (0x1FEC, 0x1FEC, 1, 0x1FE5),
     (0x1FF8, 0x1FF9, 1, 0x1F78), (0x1FFA, 0x1FFB, 1, 0x1F7C), (0x1FFC, 0x1FFC, 1, 0x1FF3), (0x2126, 0x2126, 1, 0x3C9),
     (0x212A, 0x212A, 1, 0x6B), (0x212B, 0x212B, 1, 0xE5), (0x2132, 0x2132, 1, 0x214E), (0x2160, 0x216F, 1, 0x2170),
     (0x2183, 0x2183, 1, 0x2184), (0x24B6, 0x24CF, 1, 0x24D0), (0x2C00, 0x2C2F, 1, 0x2C30), (0x2C60, 0x2C60, 1, 0x2C61),
     (0x2C62, 0x2C62, 1, 0x26B), (0x2C63, 0x2C63, 1, 0x1D7D), (0x2C64, 0x2C64, 1, 0x27D), (0x2C67, 0x2C6B, 2, 0x2C68),
     (0x2C6D, 0x2C6D, 1, 0x251), (0x2C6E, 0x2C6E, 1, 0x271), (0x2C6F, 0x2C6F, 1, 0x250), (0x2C70, 0x2C70, 1, 0x252),
     (0x2C72, 0x2C72, 1, 0x2C73), (0x2C75, 0x2C75, 1, 0x2C76), (0x2C7E, 0x2C7F, 1, 0x23F), (0x2C80, 0x2CE2, 2, 0x2C81),
     (0x2CEB, 0x2CED, 2, 0x2CEC), (0x2CF2, 0x2CF2, 1, 0x2CF3), (0xA640, 0xA66C, 2, 0xA641), (0xA680, 0xA69A, 2, 0xA681),
     (0xA722, 0xA72E, 2, 0xA723), (0xA732, 0xA76E, 2, 0xA733), (0xA779, 0xA77B, 2, 0xA77A), (0xA77D, 0xA77D, 1, 0x1D79),
     (0xA77E, 0xA786, 2, 0xA77F), (0xA78B, 0xA78B, 1, 0xA78C), (0xA78D, 0xA78D, 1, 0x265), (0xA790, 0xA792, 2, 0xA791),
     (0xA796, 0xA7A8, 2, 0xA797), (0xA7AA, 0xA7AA, 1, 0x266), (0xA7AB, 0xA7AB, 1, 0x25C), (0xA7AC, 0xA7AC, 1, 0x261),
     (0xA7AD, 0xA7AD, 1, 0x26C), (0xA7AE, 0xA7AE, 1, 0x26A), (0xA7B0, 0xA7B0, 1, 0x29E), (0xA7B1, 0xA7B1, 1, 0x287),
     (0xA7B2, 0xA7B2, 1, 0x29D), (0xA7B3, 0xA7B3, 1, 0xAB53), (0xA7B4, 0xA7C2, 2, 0xA7B5), (0xA7C4, 0xA7C4, 1, 0xA794),
     (0xA7C5, 0xA7C5, 1, 0x282), (0xA7C6, 0xA7C6, 1, 0x1D8E), (0xA7C7, 0xA7C9, 2, 0xA7C8), (0xA7D0, 0xA7D0, 1, 0xA7D1),
     (0xA7D6, 0xA7D8, 2, 0xA7D7), (0xA7F5, 0xA7F5, 1, 0xA7F6), (0xFF21, 0xFF3A, 1, 0xFF41), (0x10400, 0x10427, 1, 0x10428),
     (0x104B0, 0x104D3, 1, 0x104D8), (0x10570, 0x1057A, 1, 0x10597), (0x1057C, 0x1058A, 1, 0x105A3), (0x1058C, 0x10592, 1, 0x105B3),
     (0x10594, 0x10595, 1, 0x105BB), (0x10C80, 0x10CB2, 1, 0x10CC0), (0x118A0, 0x118BF, 1, 0x118C0), (0x16E40, 0x16E5F, 1, 0x16E60),
     (0x1E900, 0x1E921, 1, 0x1E922)
    ]"

text \<open>The code points with the property Cased, as inclusive ranges.\<close>

definition Cased_ranges :: "(nat \<times> nat) list" where
  "Cased_ranges =
    [
     (0x41, 0x5A), (0x61, 0x7A), (0xAA, 0xAA), (0xB5, 0xB5), (0xBA, 0xBA), (0xC0, 0xD6),
     (0xD8, 0xF6), (0xF8, 0x1BA), (0x1BC, 0x1BF), (0x1C4, 0x293), (0x295, 0x2B8), (0x2C0, 0x2C1),
     (0x2E0, 0x2E4), (0x345, 0x345), (0x370, 0x373), (0x376, 0x377), (0x37A, 0x37D), (0x37F, 0x37F),
     (0x386, 0x386), (0x388, 0x38A), (0x38C, 0x38C), (0x38E, 0x3A1), (0x3A3, 0x3F5), (0x3F7, 0x481),
     (0x48A, 0x52F), (0x531, 0x556), (0x560, 0x588), (0x10A0, 0x10C5), (0x10C7, 0x10C7), (0x10CD, 0x10CD),
     (0x10D0, 0x10FA), (0x10FD, 0x10FF), (0x13A0, 0x13F5), (0x13F8, 0x13FD), (0x1C80, 0x1C88), (0x1C90, 0x1CBA),
     (0x1CBD, 0x1CBF), (0x1D00, 0x1DBF), (0x1E00, 0x1F15), (0x1F18, 0x1F1D), (0x1F20, 0x1F45), (0x1F48, 0x1F4D),
     (0x1F50, 0x1F57), (0x1F59, 0x1F59), (0x1F5B, 0x1F5B), (0x1F5D, 0x1F5D), (0x1F5F, 0x1F7D), (0x1F80, 0x1FB4),
     (0x1FB6, 0x1FBC), (0x1FBE, 0x1FBE), (0x1FC2, 0x1FC4), (0x1FC6, 0x1FCC), (0x1FD0, 0x1FD3), (0x1FD6, 0x1FDB),
     (0x1FE0, 0x1FEC), (0x1FF2, 0x1FF4), (0x1FF6, 0x1FFC), (0x2071, 0x2071), (0x207F, 0x207F), (0x2090, 0x209C),
     (0x2102, 0x2102), (0x2107, 0x2107), (0x210A, 0x2113), (0x2115, 0x2115), (0x2119, 0x211D), (0x2124, 0x2124),
     (0x2126, 0x2126), (0x2128, 0x2128), (0x212A, 0x212D), (0x212F, 0x2134), (0x2139, 0x2139), (0x213C, 0x213F),
     (0x2145, 0x2149), (0x214E, 0x214E), (0x2160, 0x217F), (0x2183, 0x2184), (0x24B6, 0x24E9), (0x2C00, 0x2CE4),
     (0x2CEB, 0x2CEE), (0x2CF2, 0x2CF3), (0x2D00, 0x2D25), (0x2D27, 0x2D27), (0x2D2D, 0x2D2D), (0xA640, 0xA66D),
     (0xA680, 0xA69D), (0xA722, 0xA787), (0xA78B, 0xA78E), (0xA790, 0xA7CA), (0xA7D0, 0xA7D1), (0xA7D3, 0xA7D3),
     (0xA7D5, 0xA7D9), (0xA7F5, 0xA7F6), (0xA7F8, 0xA7FA), (0xAB30, 0xAB5A), (0xAB5C, 0xAB68), (0xAB70, 0xABBF),
     (0xFB00, 0xFB06), (0xFB13, 0xFB17), (0xFF21, 0xFF3A), (0xFF41, 0xFF5A), (0x10400, 0x1044F), (0x104B0, 0x104D3),
     (0x104D8, 0x104FB), (0x10570, 0x1057A), (0x1057C, 0x1058A), (0x1058C, 0x10592), (0x10594, 0x10595), (0x10597, 0x105A1),
     (0x105A3, 0x105B1), (0x105B3, 0x105B9), (0x105BB, 0x105BC), (0x10780, 0x10780), (0x10783, 0x10785), (0x10787, 0x107B0),
     (0x107B2, 0x107BA), (0x10C80, 0x10CB2), (0x10CC0, 0x10CF2), (0x118A0, 0x118DF), (0x16E40, 0x16E7F), (0x1D400, 0x1D454),
     (0x1D456, 0x1D49C), (0x1D49E, 0x1D49F), (0x1D4A2, 0x1D4A2), (0x1D4A5, 0x1D4A6), (0x1D4A9, 0x1D4AC), (0x1D4AE, 0x1D4B9),
     (0x1D4BB, 0x1D4BB), (0x1D4BD, 0x1D4C3), (0x1D4C5, 0x1D505), (0x1D507, 0x1D50A), (0x1D50D, 0x1D514), (0x1D516, 0x1D51C),
     (0x1D51E, 0x1D539), (0x1D53B, 0x1D53E), (0x1D540, 0x1D544), (0x1D546, 0x1D546), (0x1D54A, 0x1D550), (0x1D552, 0x1D6A5),
     (0x1D6A8, 0x1D6C0), (0x1D6C2, 0x1D6DA), (0x1D6DC, 0x1D6FA), (0x1D6FC, 0x1D714), (0x1D716, 0x1D734), (0x1D736, 0x1D74E),
     (0x1D750, 0x1D76E), (0x1D770, 0x1D788), (0x1D78A, 0x1D7A8), (0x1D7AA, 0x1D7C2), (0x1D7C4, 0x1D7CB), (0x1DF00, 0x1DF09),
     (0x1DF0B, 0x1DF1E), (0x1E900, 0x1E943), (0x1F130, 0x1F149), (0x1F150, 0x1F169), (0x1F170, 0x1F189)
    ]"

text \<open>The code points with the property Case\_Ignorable, as inclusive ranges.\<close>

definition Case_Ignorable_ranges :: "(nat \<times> nat) list" where
  "Case_Ignorable_ranges =
    [
     (0x27, 0x27), (0x2E, 0x2E), (0x3A, 0x3A), (0x5E, 0x5E), (0x60, 0x60), (0xA8, 0xA8),
     (0xAD, 0xAD), (0xAF, 0xAF), (0xB4, 0xB4), (0xB7, 0xB8), (0x2B0, 0x36F), (0x374, 0x375),
     (0x37A, 0x37A), (0x384, 0x385), (0x387, 0x387), (0x483, 0x489), (0x559, 0x559), (0x55F, 0x55F),
     (0x591, 0x5BD), (0x5BF, 0x5BF), (0x5C1, 0x5C2), (0x5C4, 0x5C5), (0x5C7, 0x5C7), (0x5F4, 0x5F4),
     (0x600, 0x605), (0x610, 0x61A), (0x61C, 0x61C), (0x640, 0x640), (0x64B, 0x65F), (0x670, 0x670),
     (0x6D6, 0x6DD), (0x6DF, 0x6E8), (0x6EA, 0x6ED), (0x70F, 0x70F), (0x711, 0x711), (0x730, 0x74A),
     (0x7A6, 0x7B0), (0x7EB, 0x7F5), (0x7FA, 0x7FA), (0x7FD, 0x7FD), (0x816, 0x82D), (0x859, 0x85B),
     (0x888, 0x888), (0x890, 0x891), (0x898, 0x89F), (0x8C9, 0x902), (0x93A, 0x93A), (0x93C, 0x93C),
     (0x941, 0x948), (0x94D, 0x94D), (0x951, 0x957), (0x962, 0x963), (0x971, 0x971), (0x981, 0x981),
     (0x9BC, 0x9BC), (0x9C1, 0x9C4), (0x9CD, 0x9CD), (0x9E2, 0x9E3), (0x9FE, 0x9FE), (0xA01, 0xA02),
     (0xA3C, 0xA3C), (0xA41, 0xA42), (0xA47, 0xA48), (0xA4B, 0xA4D), (0xA51, 0xA51), (0xA70, 0xA71),
     (0xA75, 0xA75), (0xA81, 0xA82), (0xABC, 0xABC), (0xAC1, 0xAC5), (0xAC7, 0xAC8), (0xACD, 0xACD),
     (0xAE2, 0xAE3), (0xAFA, 0xAFF), (0xB01, 0xB01), (0xB3C, 0xB3C), (0xB3F, 0xB3F), (0xB41, 0xB44),
     (0xB4D, 0xB4D), (0xB55, 0xB56), (0xB62, 0xB63), (0xB82, 0xB82), (0xBC0, 0xBC0), (0xBCD, 0xBCD),
     (0xC00, 0xC00), (0xC04, 0xC04), (0xC3C, 0xC3C), (0xC3E, 0xC40), (0xC46, 0xC48), (0xC4A, 0xC4D),
     (0xC55, 0xC56), (0xC62, 0xC63), (0xC81, 0xC81), (0xCBC, 0xCBC), (0xCBF, 0xCBF), (0xCC6, 0xCC6),
     (0xCCC, 0xCCD), (0xCE2, 0xCE3), (0xD00, 0xD01), (0xD3B, 0xD3C), (0xD41, 0xD44), (0xD4D, 0xD4D),
     (0xD62, 0xD63), (0xD81, 0xD81), (0xDCA, 0xDCA), (0xDD2, 0xDD4), (0xDD6, 0xDD6), (0xE31, 0xE31),
     (0xE34, 0xE3A), (0xE46, 0xE4E), (0xEB1, 0xEB1), (0xEB4, 0xEBC), (0xEC6, 0xEC6), (0xEC8, 0xECD),
     (0xF18, 0xF19), (0xF35, 0xF35), (0xF37, 0xF37), (0xF39, 0xF39), (0xF71, 0xF7E), (0xF80, 0xF84),
     (0xF86, 0xF87), (0xF8D, 0xF97), (0xF99, 0xFBC), (0xFC6, 0xFC6), (0x102D, 0x1030), (0x1032, 0x1037),
     (0x1039, 0x103A), (0x103D, 0x103E), (0x1058, 0x1059), (0x105E, 0x1060), (0x1071, 0x1074), (0x1082, 0x1082),
     (0x1085, 0x1086), (0x108D, 0x108D), (0x109D, 0x109D), (0x10FC, 0x10FC), (0x135D, 0x135F), (0x1712, 0x1714),
     (0x1732, 0x1733), (0x1752, 0x1753), (0x1772, 0x1773), (0x17B4, 0x17B5), (0x17B7, 0x17BD), (0x17C6, 0x17C6),
     (0x17C9, 0x17D3), (0x17D7, 0x17D7), (0x17DD, 0x17DD), (0x180B, 0x180F), (0x1843, 0x1843), (0x1885, 0x1886),
     (0x18A9, 0x18A9), (0x1920, 0x1922), (0x1927, 0x1928), (0x1932, 0x1932), (0x1939, 0x193B), (0x1A17, 0x1A18),
     (0x1A1B, 0x1A1B), (0x1A56, 0x1A56), (0x1A58, 0x1A5E), (0x1A60, 0x1A60), (0x1A62, 0x1A62), (0x1A65, 0x1A6C),
     (0x1A73, 0x1A7C), (0x1A7F, 0x1A7F), (0x1AA7, 0x1AA7), (0x1AB0, 0x1ACE), (0x1B00, 0x1B03), (0x1B34, 0x1B34),
     (0x1B36, 0x1B3A), (0x1B3C, 0x1B3C), (0x1B42, 0x1B42), (0x1B6B, 0x1B73), (0x1B80, 0x1B81), (0x1BA2, 0x1BA5),
     (0x1BA8, 0x1BA9), (0x1BAB, 0x1BAD), (0x1BE6, 0x1BE6), (0x1BE8, 0x1BE9), (0x1BED, 0x1BED), (0x1BEF, 0x1BF1),
     (0x1C2C, 0x1C33), (0x1C36, 0x1C37), (0x1C78, 0x1C7D), (0x1CD0, 0x1CD2), (0x1CD4, 0x1CE0), (0x1CE2, 0x1CE8),
     (0x1CED, 0x1CED), (0x1CF4, 0x1CF4), (0x1CF8, 0x1CF9), (0x1D2C, 0x1D6A), (0x1D78, 0x1D78), (0x1D9B, 0x1DFF),
     (0x1FBD, 0x1FBD), (0x1FBF, 0x1FC1), (0x1FCD, 0x1FCF), (0x1FDD, 0x1FDF), (0x1FED, 0x1FEF), (0x1FFD, 0x1FFE),
     (0x200B, 0x200F), (0x2018, 0x2019), (0x2024, 0x2024), (0x2027, 0x2027), (0x202A, 0x202E), (0x2060, 0x2064),
     (0x2066, 0x206F), (0x2071, 0x2071), (0x207F, 0x207F), (0x2090, 0x209C), (0x20D0, 0x20F0), (0x2C7C, 0x2C7D),
     (0x2CEF, 0x2CF1), (0x2D6F, 0x2D6F), (0x2D7F, 0x2D7F), (0x2DE0, 0x2DFF), (0x2E2F, 0x2E2F), (0x3005, 0x3005),
     (0x302A, 0x302D), (0x3031, 0x3035), (0x303B, 0x303B), (0x3099, 0x309E), (0x30FC, 0x30FE), (0xA015, 0xA015),
     (0xA4F8, 0xA4FD), (0xA60C, 0xA60C), (0xA66F, 0xA672), (0xA674, 0xA67D), (0xA67F, 0xA67F), (0xA69C, 0xA69F),
     (0xA6F0, 0xA6F1), (0xA700, 0xA721), (0xA770, 0xA770), (0xA788, 0xA78A), (0xA7F2, 0xA7F4), (0xA7F8, 0xA7F9),
     (0xA802, 0xA802), (0xA806, 0xA806), (0xA80B, 0xA80B), (0xA825, 0xA826), (0xA82C, 0xA82C), (0xA8C4, 0xA8C5),
     (0xA8E0, 0xA8F1), (0xA8FF, 0xA8FF), (0xA926, 0xA92D), (0xA947, 0xA951), (0xA980, 0xA982), (0xA9B3, 0xA9B3),
     (0xA9B6, 0xA9B9), (0xA9BC, 0xA9BD), (0xA9CF, 0xA9CF), (0xA9E5, 0xA9E6), (0xAA29, 0xAA2E), (0xAA31, 0xAA32),
     (0xAA35, 0xAA36), (0xAA43, 0xAA43), (0xAA4C, 0xAA4C), (0xAA70, 0xAA70), (0xAA7C, 0xAA7C), (0xAAB0, 0xAAB0),
     (0xAAB2, 0xAAB4), (0xAAB7, 0xAAB8), (0xAABE, 0xAABF), (0xAAC1, 0xAAC1), (0xAADD, 0xAADD), (0xAAEC, 0xAAED),
     (0xAAF3, 0xAAF4), (0xAAF6, 0xAAF6), (0xAB5B, 0xAB5F), (0xAB69, 0xAB6B), (0xABE5, 0xABE5), (0xABE8, 0xABE8),
     (0xABED, 0xABED), (0xFB1E, 0xFB1E), (0xFBB2, 0xFBC2), (0xFE00, 0xFE0F), (0xFE13, 0xFE13), (0xFE20, 0xFE2F),
     (0xFE52, 0xFE52), (0xFE55, 0xFE55), (0xFEFF, 0xFEFF), (0xFF07, 0xFF07), (0xFF0E, 0xFF0E), (0xFF1A, 0xFF1A),
     (0xFF3E, 0xFF3E), (0xFF40, 0xFF40), (0xFF70, 0xFF70), (0xFF9E, 0xFF9F), (0xFFE3, 0xFFE3), (0xFFF9, 0xFFFB),
     (0x101FD, 0x101FD), (0x102E0, 0x102E0), (0x10376, 0x1037A), (0x10780, 0x10785), (0x10787, 0x107B0), (0x107B2, 0x107BA),
     (0x10A01, 0x10A03), (0x10A05, 0x10A06), (0x10A0C, 0x10A0F), (0x10A38, 0x10A3A), (0x10A3F, 0x10A3F), (0x10AE5, 0x10AE6),
     (0x10D24, 0x10D27), (0x10EAB, 0x10EAC), (0x10F46, 0x10F50), (0x10F82, 0x10F85), (0x11001, 0x11001), (0x11038, 0x11046),
     (0x11070, 0x11070), (0x11073, 0x11074), (0x1107F, 0x11081), (0x110B3, 0x110B6), (0x110B9, 0x110BA), (0x110BD, 0x110BD),
     (0x110C2, 0x110C2), (0x110CD, 0x110CD), (0x11100, 0x11102), (0x11127, 0x1112B), (0x1112D, 0x11134), (0x11173, 0x11173),
     (0x11180, 0x11181), (0x111B6, 0x111BE), (0x111C9, 0x111CC), (0x111CF, 0x111CF), (0x1122F, 0x11231), (0x11234, 0x11234),
     (0x11236, 0x11237), (0x1123E, 0x1123E), (0x112DF, 0x112DF), (0x112E3, 0x112EA), (0x11300, 0x11301), (0x1133B, 0x1133C),
     (0x11340, 0x11340), (0x11366, 0x1136C), (0x11370, 0x11374), (0x11438, 0x1143F), (0x11442, 0x11444), (0x11446, 0x11446),
     (0x1145E, 0x1145E), (0x114B3, 0x114B8), (0x114BA, 0x114BA), (0x114BF, 0x114C0), (0x114C2, 0x114C3), (0x115B2, 0x115B5),
     (0x115BC, 0x115BD), (0x115BF, 0x115C0), (0x115DC, 0x115DD), (0x11633, 0x1163A), (0x1163D, 0x1163D), (0x1163F, 0x11640),
     (0x116AB, 0x116AB), (0x116AD, 0x116AD), (0x116B0, 0x116B5), (0x116B7, 0x116B7), (0x1171D, 0x1171F), (0x11722, 0x11725),
     (0x11727, 0x1172B), (0x1182F, 0x11837), (0x11839, 0x1183A), (0x1193B, 0x1193C), (0x1193E, 0x1193E), (0x11943, 0x11943),
     (0x119D4, 0x119D7), (0x119DA, 0x119DB), (0x119E0, 0x119E0), (0x11A01, 0x11A0A), (0x11A33, 0x11A38), (0x11A3B, 0x11A3E),
     (0x11A47, 0x11A47), (0x11A51, 0x11A56), (0x11A59, 0x11A5B), (0x11A8A, 0x11A96), (0x11A98, 0x11A99), (0x11C30, 0x11C36),
     (0x11C38, 0x11C3D), (0x11C3F, 0x11C3F), (0x11C92, 0x11CA7), (0x11CAA, 0x11CB0), (0x11CB2, 0x11CB3), (0x11CB5, 0x11CB6),
     (0x11D31, 0x11D36), (0x11D3A, 0x11D3A), (0x11D3C, 0x11D3D), (0x11D3F, 0x11D45), (0x11D47, 0x11D47), (0x11D90, 0x11D91),
     (0x11D95, 0x11D95), (0x11D97, 0x11D97), (0x11EF3, 0x11EF4), (0x13430, 0x13438), (0x16AF0, 0x16AF4), (0x16B30, 0x16B36),
     (0x16B40, 0x16B43), (0x16F4F, 0x16F4F), (0x16F8F, 0x16F9F), (0x16FE0, 0x16FE1), (0x16FE3, 0x16FE4), (0x1AFF0, 0x1AFF3),
     (0x1AFF5, 0x1AFFB), (0x1AFFD, 0x1AFFE), (0x1BC9D, 0x1BC9E), (0x1BCA0, 0x1BCA3), (0x1CF00, 0x1CF2D), (0x1CF30, 0x1CF46),
     (0x1D167, 0x1D169), (0x1D173, 0x1D182), (0x1D185, 0x1D18B), (0x1D1AA, 0x1D1AD), (0x1D242, 0x1D244), (0x1DA00, 0x1DA36),
     (0x1DA3B, 0x1DA6C), (0x1DA75, 0x1DA75), (0x1DA84, 0x1DA84), (0x1DA9B, 0x1DA9F), (0x1DAA1, 0x1DAAF), (0x1E000, 0x1E006),
     (0x1E008, 0x1E018), (0x1E01B, 0x1E021), (0x1E023, 0x1E024), (0x1E026, 0x1E02A), (0x1E130, 0x1E13D), (0x1E2AE, 0x1E2AE),
     (0x1E2EC, 0x1E2EF), (0x1E8D0, 0x1E8D6), (0x1E944, 0x1E94B), (0x1F3FB, 0x1F3FF), (0xE0001, 0xE0001), (0xE0020, 0xE007F),
     (0xE0100, 0xE01EF)
    ]"

fun lookup_lower :: "(nat \<times> nat \<times> nat \<times> nat) list \<Rightarrow> nat \<Rightarrow> nat" where
  "lookup_lower [] c = c"
| "lookup_lower ((lo, hi, step, t) # rs) c =
     (if lo \<le> c \<and> c \<le> hi \<and> (c - lo) mod step = 0 then t + (c - lo)
      else lookup_lower rs c)"

definition simple_lower :: "nat \<Rightarrow> nat" where
  "simple_lower c = lookup_lower lower_rules c"

fun in_ranges :: "(nat \<times> nat) list \<Rightarrow> nat \<Rightarrow> bool" where
  "in_ranges [] c = False"
| "in_ranges ((lo, hi) # rs) c = (lo \<le> c \<and> c \<le> hi \<or> in_ranges rs c)"

definition Cased :: "nat \<Rightarrow> bool" where
  "Cased c = in_ranges Cased_ranges c"

definition Case_Ignorable :: "nat \<Rightarrow> bool" where
  "Case_Ignorable c = in_ranges Case_Ignorable_ranges c"

subsection \<open>toLowerCase\<close>

text \<open>
  \<^verbatim>\<open>toLowerCase\<close> reads the code units as code points (a high surrogate followed by a low
  one is one code point, any other code unit is its own), lowers the code points and
  writes the result back as code units. A code point is lowered by its simple mapping,
  but for two: U+0130 becomes U+0069 U+0307, and U+03A3 (capital sigma) becomes the final
  sigma U+03C2 when a cased letter precedes it and none follows, case-ignorable characters
  skipped on both sides, and U+03C3 otherwise.
\<close>

fun StringToCodePoints :: "js_string \<Rightarrow> nat list" where
  "StringToCodePoints (u # v # us) =
     (if 0xD800 \<le> u \<and> u \<le> 0xDBFF \<and> 0xDC00 \<le> v \<and> v \<le> 0xDFFF
      then (0x10000 + (u - 0xD800) * 0x400 + (v - 0xDC00)) # StringToCodePoints us
      else u # StringToCodePoints (v # us))"
| "StringToCodePoints us = us"

definition UTF16EncodeCodePoint :: "nat \<Rightarrow> js_string" where
  "UTF16EncodeCodePoint cp =
     (if cp < 0x10000 then [cp]
      else [0xD800 + (cp - 0x10000) div 0x400, 0xDC00 + (cp - 0x10000) mod 0x400])"

definition CodePointsToString :: "nat list \<Rightarrow> js_string" where
  "CodePointsToString cps = concat (map UTF16EncodeCodePoint cps)"

definition cased_next :: "nat list \<Rightarrow> bool" where
  "cased_next cps = (case dropWhile Case_Ignorable cps of [] \<Rightarrow> False | c # cs \<Rightarrow> Cased c)"

text \<open>\<open>prev\<close> holds the code points before the sigma, the nearest first.\<close>

definition Final_Sigma :: "nat list \<Rightarrow> nat list \<Rightarrow> bool" where
  "Final_Sigma prev after \<longleftrightarrow> cased_next prev \<and> \<not> cased_next after"

fun toLowercase :: "nat list \<Rightarrow> nat list \<Rightarrow> nat list" where
  "toLowercase prev [] = []"
| "toLowercase prev (c # after) =
     (if c = 0x3A3 then [if Final_Sigma prev after then 0x3C2 else 0x3C3]
      else if c = 0x130 then [0x69, 0x307]
      else [simple_lower c]) @ toLowercase (c # prev) after"

definition toLowerCase :: "js_string \<Rightarrow> js_string" where
  "toLowerCase s = CodePointsToString (toLowercase [] (StringToCodePoints s))"

subsection \<open>includes\<close>

text \<open>
  \<^verbatim>\<open>String.prototype.includes\<close>: \<^verbatim>\<open>s.includes(t)\<close> looks for the code units of \<^verbatim>\<open>t\<close> at
  every start position of \<^verbatim>\<open>s\<close>, from the left; the empty \<^verbatim>\<open>t\<close> is found at position 0.
\<close>

fun startsWith :: "js_string \<Rightarrow> js_string \<Rightarrow> bool" where
  "startsWith s [] = True"
| "startsWith [] (d # ds) = False"
| "startsWith (c # cs) (d # ds) = (c = d \<and> startsWith cs ds)"

fun str_includes :: "js_string \<Rightarrow> js_string \<Rightarrow> bool" where
  "str_includes [] t = startsWith [] t"
| "str_includes (c # cs) t = (startsWith (c # cs) t \<or> str_includes cs t)"

section \<open>Data model\<close>

text \<open>
  The interface \<^verbatim>\<open>ParkingFeature\<close> declares \<^verbatim>\<open>properties\<close> and
  \<^verbatim>\<open>geometry.coordinates : number[][][]\<close>, and the component's state is declared a
  \<^verbatim>\<open>ParkingFeature[]\<close>. The records below are the values of these types; a number is
  modelled as a real, and is only stored and compared. The validating variant reads
  \<^verbatim>\<open>feature.geometry?.coordinates?.[0]?.length\<close>, so \<^verbatim>\<open>geometry\<close> and \<^verbatim>\<open>coordinates\<close> may
  be absent: both are options. An array may have any length, the empty one included.
\<close>

type_synonym number = real

type_synonym position = "number list"

type_synonym ring = "position list"

record properties =
  name :: js_string
  tyyppi :: js_string
  status :: js_string
  autopaikk :: number
  sahkoauto :: bool
  inva :: bool

record geometry =
  coordinates :: "ring list option"

record ParkingFeature =
  properties :: properties
  geometry :: "geometry option"

record filters =
  electric :: bool
  disability :: bool

section \<open>Filter engine\<close>

text \<open>
  \<^verbatim>\<open>filteredParkingData\<close> of \<^verbatim>\<open>App.tsx\<close> (lines 111-119), the same in every variant:
  \<^verbatim>\<open>parkingData.filter(record => (!filters.electric || sahkoauto) &&
  (!filters.disability || inva) && (name.toLowerCase().includes(searchTerm.toLowerCase())
  || tyyppi.toLowerCase().includes(searchTerm.toLowerCase())))\<close>.
\<close>

definition filteredParkingData ::
  "ParkingFeature list \<Rightarrow> filters \<Rightarrow> js_string \<Rightarrow> ParkingFeature list" where
  "filteredParkingData parkingData flt searchTerm =
     filter (\<lambda>rec.
       (\<not> electric flt \<or> sahkoauto (properties rec)) \<and>
       (\<not> disability flt \<or> inva (properties rec)) \<and>
       (str_includes (toLowerCase (name (properties rec))) (toLowerCase searchTerm) \<or>
        str_includes (toLowerCase (tyyppi (properties rec))) (toLowerCase searchTerm)))
     parkingData"

text \<open>
  The specification's wording of the text clause, stated without \<^verbatim>\<open>toLowerCase\<close> and
  \<^verbatim>\<open>includes\<close>. Two code units are the same up to case when their simple lowercase
  mappings agree. The search term is a case-insensitive substring of a field when the
  field is some prefix, then a segment, then some suffix, and the segment has the length
  of the term and agrees with it up to case, position by position.
\<close>

definition same_up_to_case :: "nat \<Rightarrow> nat \<Rightarrow> bool" where
  "same_up_to_case c d \<longleftrightarrow> simple_lower c = simple_lower d"

definition ci_substring :: "js_string \<Rightarrow> js_string \<Rightarrow> bool" where
  "ci_substring t s \<longleftrightarrow>
     (\<exists>pre mid suf. s = pre @ mid @ suf \<and> list_all2 same_up_to_case t mid)"

text \<open>
  The strings whose lowering does not depend on the context: no surrogate code unit,
  no U+0130 and no U+03A3.
\<close>

definition plain :: "js_string \<Rightarrow> bool" where
  "plain s \<longleftrightarrow>
     list_all (\<lambda>u. (u < 0xD800 \<or> 0xE000 \<le> u \<and> u < 0x10000) \<and> u \<noteq> 0x130 \<and> u \<noteq> 0x3A3) s"

text \<open>The feature and the criteria of the specification's first scenario.\<close>

definition lotA :: ParkingFeature where
  "lotA = \<lparr>properties = \<lparr>name = ascii ''Lot A'', tyyppi = ascii ''surface'',
            status = ascii ''open'', autopaikk = 10, sahkoauto = True, inva = False\<rparr>,
          geometry = Some \<lparr>coordinates =
            Some [[[24.9, 60.1], [24.91, 60.1], [24.91, 60.11]]]\<rparr>\<rparr>"

definition garageB :: ParkingFeature where
  "garageB = \<lparr>properties = \<lparr>name = ascii ''Garage B'', tyyppi = ascii ''garage'',
               status = ascii ''closed'', autopaikk = 40, sahkoauto = False, inva = True\<rparr>,
             geometry = None\<rparr>"

text \<open>
  A feature whose name is the Greek word of code points U+039F U+0394 U+039F U+03A3,
  which ends in a capital sigma, and a feature whose name is J, U+00C4 (A with diaeresis),
  r, v, i.
\<close>

definition odos :: ParkingFeature where
  "odos = \<lparr>properties = \<lparr>name = [0x39F, 0x394, 0x39F, 0x3A3], tyyppi = ascii ''surface'',
            status = ascii ''open'', autopaikk = 5, sahkoauto = False, inva = False\<rparr>,
          geometry = None\<rparr>"

definition jarvi :: ParkingFeature where
  "jarvi = \<lparr>properties = \<lparr>name = [0x4A, 0xC4, 0x72, 0x76, 0x69], tyyppi = ascii ''surface'',
             status = ascii ''open'', autopaikk = 5, sahkoauto = False, inva = False\<rparr>,
           geometry = None\<rparr>"

section \<open>Decoded JSON values\<close>

text \<open>
  \<^verbatim>\<open>response.json()\<close> gives an untyped value (\<^verbatim>\<open>any\<close>). A decoded number is a finite double,
  modelled by its real value, or an infinity, which an overflowing literal gives:
  \<open>JInf True\<close> is \<^verbatim>\<open>Infinity\<close>. An object is the list of its properties in enumeration
  order, with distinct keys. \<^verbatim>\<open>undefined\<close> is \<^const>\<open>None\<close> in a \<^typ>\<open>'a option\<close>.
\<close>

datatype json =
    JNull
  | JBool bool
  | JNum real
  | JInf bool
  | JStr js_string
  | JArr "json list"
  | JObj "(js_string \<times> json) list"

datatype js_error = TypeError | FetchError | SyntaxError | InvalidDataFormat

text \<open>\<^verbatim>\<open>ToBoolean\<close>, as \<^verbatim>\<open>&&\<close> and \<^verbatim>\<open>if\<close> apply it.\<close>

fun truthy :: "json \<Rightarrow> bool" where
  "truthy JNull = False"
| "truthy (JBool b) = b"
| "truthy (JNum r) = (r \<noteq> 0)"
| "truthy (JInf b) = True"
| "truthy (JStr s) = (s \<noteq> [])"
| "truthy (JArr xs) = True"
| "truthy (JObj kvs) = True"

text \<open>
  \<^verbatim>\<open>v.k\<close> on a value \<^verbatim>\<open>v\<close> other than \<^verbatim>\<open>null\<close>, for the keys the application reads this
  way (\<^verbatim>\<open>features\<close>, \<^verbatim>\<open>type\<close>, \<^verbatim>\<open>geometry\<close>, \<^verbatim>\<open>coordinates\<close>): no built-in prototype
  defines them, so only an object can have them.
\<close>

fun member :: "js_string \<Rightarrow> json \<Rightarrow> json option" where
  "member k (JObj kvs) = map_of kvs k"
| "member k v = None"

text \<open>Array indexing \<^verbatim>\<open>xs[i]\<close>: \<^verbatim>\<open>undefined\<close> out of range.\<close>

definition nth_opt :: "'a list \<Rightarrow> nat \<Rightarrow> 'a option" where
  "nth_opt xs i = (if i < length xs then Some (xs ! i) else None)"

text \<open>
  \<^verbatim>\<open>v[0]\<close> and \<^verbatim>\<open>v.length\<close> on a value other than \<^verbatim>\<open>null\<close>: an array and a string have
  elements and a length, an object has what its properties \<^verbatim>\<open>0\<close> and \<^verbatim>\<open>length\<close> hold.
\<close>

fun index0 :: "json \<Rightarrow> json option" where
  "index0 (JArr xs) = nth_opt xs 0"
| "index0 (JStr s) = map_option (\<lambda>u. JStr [u]) (nth_opt s 0)"
| "index0 (JObj kvs) = map_of kvs (ascii ''0'')"
| "index0 v = None"

fun length_of :: "json \<Rightarrow> json option" where
  "length_of (JArr xs) = Some (JNum (real (length xs)))"
| "length_of (JStr s) = Some (JNum (real (length s)))"
| "length_of (JObj kvs) = map_of kvs (ascii ''length'')"
| "length_of v = None"

text \<open>Optional chaining \<^verbatim>\<open>v?.\<close>: \<^verbatim>\<open>undefined\<close> when \<^verbatim>\<open>v\<close> is \<^verbatim>\<open>undefined\<close> or \<^verbatim>\<open>null\<close>.\<close>

definition optional :: "(json \<Rightarrow> json option) \<Rightarrow> json option \<Rightarrow> json option" where
  "optional get v = (case v of None \<Rightarrow> None | Some JNull \<Rightarrow> None | Some x \<Rightarrow> get x)"

subsection \<open>The comparison with zero\<close>

text \<open>
  \<^verbatim>\<open>x > 0\<close> converts \<^verbatim>\<open>x\<close> to a number. \<^verbatim>\<open>StringToNumber\<close> trims white space and reads a
  numeric literal: \<^verbatim>\<open>Infinity\<close>, a signed decimal literal, or an unsigned hexadecimal,
  octal or binary one; any other string is \<^verbatim>\<open>NaN\<close>, and the empty one is 0. The value is
  rounded to a double, so a positive literal is above zero when its value exceeds
  \<open>2 ^ -1075\<close>.
\<close>

definition StrWhiteSpaceChar :: "nat \<Rightarrow> bool" where
  "StrWhiteSpaceChar u \<longleftrightarrow>
     u \<in> {0x9, 0xA, 0xB, 0xC, 0xD, 0x20, 0xA0, 0x1680, 0x2028, 0x2029, 0x202F, 0x205F,
          0x3000, 0xFEFF} \<or> 0x2000 \<le> u \<and> u \<le> 0x200A"

definition trim :: "js_string \<Rightarrow> js_string" where
  "trim s = rev (dropWhile StrWhiteSpaceChar (rev (dropWhile StrWhiteSpaceChar s)))"

definition is_digit :: "nat \<Rightarrow> bool" where
  "is_digit u \<longleftrightarrow> 0x30 \<le> u \<and> u \<le> 0x39"

definition digits_value :: "js_string \<Rightarrow> nat" where
  "digits_value ds = foldl (\<lambda>a d. 10 * a + (d - 0x30)) 0 ds"

definition signed_digits :: "js_string \<Rightarrow> int option" where
  "signed_digits r =
     (case r of
        [] \<Rightarrow> None
      | sg # ds \<Rightarrow>
          if sg = 0x2B \<or> sg = 0x2D
          then (if ds \<noteq> [] \<and> list_all is_digit ds
                then Some (if sg = 0x2D then - int (digits_value ds) else int (digits_value ds))
                else None)
          else (if list_all is_digit r then Some (int (digits_value r)) else None))"

text \<open>The exponent part, \<^verbatim>\<open>e\<close> or \<^verbatim>\<open>E\<close> and a signed integer; none is the exponent 0.\<close>

definition exponent_value :: "js_string \<Rightarrow> int option" where
  "exponent_value r =
     (case r of
        [] \<Rightarrow> Some 0
      | e # r' \<Rightarrow> if e = 0x65 \<or> e = 0x45 then signed_digits r' else None)"

text \<open>An unsigned decimal literal other than \<^verbatim>\<open>Infinity\<close> whose double is above zero.\<close>

definition decimal_positive :: "js_string \<Rightarrow> bool" where
  "decimal_positive u =
     (let ip = takeWhile is_digit u;
          r1 = dropWhile is_digit u;
          dot = (r1 \<noteq> [] \<and> hd r1 = 0x2E);
          fp = (if dot then takeWhile is_digit (tl r1) else []);
          r2 = (if dot then dropWhile is_digit (tl r1) else r1)
      in (ip \<noteq> [] \<or> fp \<noteq> []) \<and>
         (case exponent_value r2 of
            None \<Rightarrow> False
          | Some e \<Rightarrow>
              let d = digits_value (ip @ fp); k = e - int (length fp)
              in 0 < d \<and> (0 \<le> k \<or> 10 ^ nat (- k) < d * 2 ^ 1075)))"

definition radix_digit :: "nat \<Rightarrow> nat \<Rightarrow> bool" where
  "radix_digit x u \<longleftrightarrow>
     (if x = 0x78 \<or> x = 0x58
      then is_digit u \<or> 0x61 \<le> u \<and> u \<le> 0x66 \<or> 0x41 \<le> u \<and> u \<le> 0x46
      else if x = 0x6F \<or> x = 0x4F then 0x30 \<le> u \<and> u \<le> 0x37
      else if x = 0x62 \<or> x = 0x42 then u = 0x30 \<or> u = 0x31
      else False)"

text \<open>A literal \<^verbatim>\<open>0x\<close>, \<^verbatim>\<open>0o\<close> or \<^verbatim>\<open>0b\<close> with a digit other than 0.\<close>

definition radix_positive :: "js_string \<Rightarrow> bool" where
  "radix_positive u =
     (case u of
        z # x # ds \<Rightarrow>
          z = 0x30 \<and> ds \<noteq> [] \<and> list_all (radix_digit x) ds \<and> list_ex (\<lambda>d. d \<noteq> 0x30) ds
      | _ \<Rightarrow> False)"

definition StringToNumber_positive :: "js_string \<Rightarrow> bool" where
  "StringToNumber_positive s =
     (let t = trim s
      in t = ascii ''Infinity'' \<or> t = ascii ''+Infinity'' \<or> radix_positive t \<or>
         (case t of
            [] \<Rightarrow> False
          | c # r \<Rightarrow>
              if c = 0x2B then decimal_positive r
              else if c = 0x2D then False
              else decimal_positive t))"

text \<open>
  An object or an array is first converted to a primitive. A decoded object has no
  callable \<^verbatim>\<open>valueOf\<close> or \<^verbatim>\<open>toString\<close> of its own: with an own property \<^verbatim>\<open>toString\<close> the
  conversion throws a \<^verbatim>\<open>TypeError\<close>, without one the object is the string
  \<^verbatim>\<open>[object Object]\<close>, which is \<^verbatim>\<open>NaN\<close>. An array is the strings of its elements joined by
  commas, \<^verbatim>\<open>null\<close> being the empty string.
\<close>

fun ToString_throws :: "json \<Rightarrow> bool" and ToString_throws_list :: "json list \<Rightarrow> bool" where
  "ToString_throws (JObj kvs) = (map_of kvs (ascii ''toString'') \<noteq> None)"
| "ToString_throws (JArr xs) = ToString_throws_list xs"
| "ToString_throws JNull = False"
| "ToString_throws (JBool b) = False"
| "ToString_throws (JNum r) = False"
| "ToString_throws (JInf b) = False"
| "ToString_throws (JStr s) = False"
| "ToString_throws_list [] = False"
| "ToString_throws_list (x # xs) = (ToString_throws x \<or> ToString_throws_list xs)"

text \<open>
  Whether the number read from the string of a value is above zero. The string of a
  number reads back as that number; a string with a comma in it is \<^verbatim>\<open>NaN\<close>.
\<close>

fun string_positive :: "json \<Rightarrow> bool" where
  "string_positive (JNum r) = (0 < r)"
| "string_positive (JInf b) = b"
| "string_positive (JStr s) = StringToNumber_positive s"
| "string_positive (JArr [x]) = string_positive x"
| "string_positive v = False"

definition greater_than_zero :: "json option \<Rightarrow> js_error + bool" where
  "greater_than_zero x =
     (case x of
        None \<Rightarrow> Inr False
      | Some JNull \<Rightarrow> Inr False
      | Some (JBool b) \<Rightarrow> Inr b
      | Some (JNum r) \<Rightarrow> Inr (0 < r)
      | Some (JInf b) \<Rightarrow> Inr b
      | Some (JStr s) \<Rightarrow> Inr (StringToNumber_positive s)
      | Some (JArr xs) \<Rightarrow>
          if ToString_throws (JArr xs) then Inl TypeError else Inr (string_positive (JArr xs))
      | Some (JObj kvs) \<Rightarrow>
          if ToString_throws (JObj kvs) then Inl TypeError else Inr False)"

section \<open>Application state\<close>

text \<open>
  The state held by the \<^verbatim>\<open>App\<close> component through \<^verbatim>\<open>useState\<close>: the feature list, the
  current location (\<^verbatim>\<open>null\<close> until a position is known), the search term and the two
  toggles. \<^verbatim>\<open>Alert.alert(title, message)\<close> is the only signal to the user; the alerts
  raised so far are kept in the state, oldest first.

  \<^verbatim>\<open>parkingData\<close> is declared a \<^verbatim>\<open>ParkingFeature[]\<close>, and the component reads it at that
  type. At run time it holds whatever \<^verbatim>\<open>setParkingData\<close> was given, unchecked. The record
  is parametric in it: \<open>json app_state\<close> is the state at run time, which the fetch functions
  update, and \<open>ParkingFeature list app_state\<close> is the state at the declared type, which
  the rendering reads.
\<close>

datatype alert = Alert string string

record LocationState =
  latitude :: number
  longitude :: number
  latitudeDelta :: number
  longitudeDelta :: number

record 'p app_state =
  parkingData :: 'p
  currentLocation :: "LocationState option"
  searchTerm :: js_string
  filters :: filters
  alerts :: "alert list"

definition initial_state :: "ParkingFeature list app_state" where
  "initial_state = \<lparr>parkingData = [], currentLocation = None, searchTerm = [],
     filters = \<lparr>electric = False, disability = False\<rparr>, alerts = []\<rparr>"

text \<open>
  A value of the declared types as the JSON value it is at run time, and a state of the
  declared type as the run-time state it is.
\<close>

definition json_of_ring :: "ring \<Rightarrow> json" where
  "json_of_ring r = JArr (map (\<lambda>p. JArr (map JNum p)) r)"

definition json_of_properties :: "properties \<Rightarrow> json" where
  "json_of_properties p =
     JObj [(ascii ''name'', JStr (name p)), (ascii ''tyyppi'', JStr (tyyppi p)),
           (ascii ''status'', JStr (status p)), (ascii ''autopaikk'', JNum (autopaikk p)),
           (ascii ''sahkoauto'', JBool (sahkoauto p)), (ascii ''inva'', JBool (inva p))]"

definition json_of_geometry :: "geometry \<Rightarrow> json" where
  "json_of_geometry g =
     JObj (case coordinates g of
             None \<Rightarrow> []
           | Some rs \<Rightarrow> [(ascii ''coordinates'', JArr (map json_of_ring rs))])"

definition json_of_feature :: "ParkingFeature \<Rightarrow> json" where
  "json_of_feature f =
     JObj ((ascii ''properties'', json_of_properties (properties f)) #
           (case geometry f of
              None \<Rightarrow> []
            | Some g \<Rightarrow> [(ascii ''geometry'', json_of_geometry g)]))"

definition json_of_features :: "ParkingFeature list \<Rightarrow> json" where
  "json_of_features fs = JArr (map json_of_feature fs)"

definition at_run_time :: "ParkingFeature list app_state \<Rightarrow> json app_state" where
  "at_run_time st =
     \<lparr>parkingData = json_of_features (parkingData st), currentLocation = currentLocation st,
      searchTerm = searchTerm st, filters = filters st, alerts = alerts st\<rparr>"

section \<open>Fetching and normalizing the features\<close>

text \<open>
  What \<^verbatim>\<open>await fetch(url)\<close> followed by \<^verbatim>\<open>await response.json()\<close> can give: the request is
  rejected, the body is not JSON, or the body decodes to a value.
\<close>

datatype 'a fetched = NetworkError | NotJson | Decoded 'a

text \<open>
  \<^verbatim>\<open>fetchParkingData\<close> of \<^verbatim>\<open>App.tsx\<close> (lines 90-108): the body of the \<^verbatim>\<open>try\<close> block, then
  the function with its \<^verbatim>\<open>catch\<close>. \<^verbatim>\<open>if (data && data.features)\<close> tests both for
  truthiness, and \<^verbatim>\<open>setParkingData(data.features)\<close> stores the value as it arrives.
\<close>

definition fetchParkingData_try ::
  "json fetched \<Rightarrow> json app_state \<Rightarrow> js_error + json app_state" where
  "fetchParkingData_try resp st =
     (case resp of
        NetworkError \<Rightarrow> Inl FetchError
      | NotJson \<Rightarrow> Inl SyntaxError
      | Decoded data \<Rightarrow>
          (case (if truthy data then member (ascii ''features'') data else None) of
             Some features \<Rightarrow>
               if truthy features then Inr (st\<lparr>parkingData := features\<rparr>)
               else Inr (st\<lparr>alerts := alerts st @
                 [Alert ''Error'' ''Invalid data format received from the server.'']\<rparr>)
           | None \<Rightarrow> Inr (st\<lparr>alerts := alerts st @
                 [Alert ''Error'' ''Invalid data format received from the server.'']\<rparr>)))"

definition fetchParkingData :: "json fetched \<Rightarrow> json app_state \<Rightarrow> json app_state" where
  "fetchParkingData resp st =
     (case fetchParkingData_try resp st of
        Inr st' \<Rightarrow> st'
      | Inl e \<Rightarrow> st\<lparr>alerts := alerts st @ [Alert ''Error'' ''Failed to fetch parking data.'']\<rparr>)"

text \<open>
  The validating variant of \<^verbatim>\<open>fetchParkingData\<close> (\<^verbatim>\<open>src/unnamed/part_004\<close>, lines 39-79).
  The callback of the filter computes
  \<^verbatim>\<open>hasValidCoordinates = feature.geometry?.coordinates?.[0]?.length > 0\<close>: reading
  \<^verbatim>\<open>feature.geometry\<close> throws on a \<^verbatim>\<open>null\<close> feature, each \<^verbatim>\<open>?.\<close> passes \<^verbatim>\<open>undefined\<close> on, and
  the comparison is the one above. An exception in the callback ends the filter.
\<close>

definition hasValidCoordinates :: "json \<Rightarrow> js_error + bool" where
  "hasValidCoordinates feature =
     (if feature = JNull then Inl TypeError
      else greater_than_zero
             (optional length_of
               (optional index0
                 (optional (member (ascii ''coordinates''))
                   (member (ascii ''geometry'') feature)))))"

fun validFeatures :: "json list \<Rightarrow> js_error + json list" where
  "validFeatures [] = Inr []"
| "validFeatures (feature # rest) =
     (case hasValidCoordinates feature of
        Inl e \<Rightarrow> Inl e
      | Inr valid \<Rightarrow>
          (case validFeatures rest of
             Inl e \<Rightarrow> Inl e
           | Inr kept \<Rightarrow> Inr (if \<not> valid then kept else feature # kept)))"

text \<open>
  The debug log before the check reads \<^verbatim>\<open>data.type\<close>, which throws on a \<^verbatim>\<open>null\<close> body.
  \<^verbatim>\<open>data.features.filter\<close> is a function on an array only; calling it on another truthy
  value throws. A body without a truthy \<^verbatim>\<open>features\<close> throws
  \<^verbatim>\<open>Error("Invalid data format received")\<close>. Every exception is caught by the one
  \<^verbatim>\<open>catch\<close>, which alerts.
\<close>

definition fetchParkingData_validating_try ::
  "json fetched \<Rightarrow> json app_state \<Rightarrow> js_error + json app_state" where
  "fetchParkingData_validating_try resp st =
     (case resp of
        NetworkError \<Rightarrow> Inl FetchError
      | NotJson \<Rightarrow> Inl SyntaxError
      | Decoded data \<Rightarrow>
          if data = JNull then Inl TypeError
          else
            (case (if truthy data then member (ascii ''features'') data else None) of
               None \<Rightarrow> Inl InvalidDataFormat
             | Some features \<Rightarrow>
                 if \<not> truthy features then Inl InvalidDataFormat
                 else
                   (case features of
                      JArr xs \<Rightarrow>
                        (case validFeatures xs of
                           Inl e \<Rightarrow> Inl e
                         | Inr kept \<Rightarrow> Inr (st\<lparr>parkingData := JArr kept\<rparr>))
                    | _ \<Rightarrow> Inl TypeError)))"

definition fetchParkingData_validating ::
  "json fetched \<Rightarrow> json app_state \<Rightarrow> json app_state" where
  "fetchParkingData_validating resp st =
     (case fetchParkingData_validating_try resp st of
        Inr st' \<Rightarrow> st'
      | Inl e \<Rightarrow> st\<lparr>alerts := alerts st @ [Alert ''Error''
          ''Failed to fetch parking data. Please check your connection and try again.'']\<rparr>)"

text \<open>
  The specification's wording of a valid feature: \<^verbatim>\<open>geometry.coordinates[0]\<close> exists and
  is a non-empty sequence.
\<close>

definition first_ring_nonempty :: "ParkingFeature \<Rightarrow> bool" where
  "first_ring_nonempty f \<longleftrightarrow>
     (case geometry f of
        None \<Rightarrow> False
      | Some g \<Rightarrow> (case coordinates g of
          None \<Rightarrow> False
        | Some [] \<Rightarrow> False
        | Some (r # rs) \<Rightarrow> r \<noteq> []))"

text \<open>Features with an absent first ring and with an empty first ring.\<close>

definition noRing :: ParkingFeature where
  "noRing = lotA\<lparr>geometry := Some \<lparr>coordinates = Some []\<rparr>\<rparr>"

definition emptyRing :: ParkingFeature where
  "emptyRing = lotA\<lparr>geometry := Some \<lparr>coordinates = Some [[]]\<rparr>\<rparr>"

text \<open>A region for the map, as \<^verbatim>\<open>getLocation\<close> stores it.\<close>

definition helsinki :: LocationState where
  "helsinki = \<lparr>latitude = 60.17, longitude = 24.94, latitudeDelta = 0.05, longitudeDelta = 0.05\<rparr>"

section \<open>Rendering\<close>

text \<open>
  The \<^verbatim>\<open>return\<close> of \<^verbatim>\<open>App\<close> (\<^verbatim>\<open>App.tsx\<close>, lines 121-182): the loading view while
  \<^verbatim>\<open>currentLocation\<close> is \<^verbatim>\<open>null\<close>, otherwise the map with \<^verbatim>\<open>initialRegion\<close> the current
  location, one polygon per stored feature and one marker per filtered feature. A
  coordinate is \<^verbatim>\<open>{latitude: lat, longitude: lng}\<close>, written here as the pair
  (latitude, longitude); destructuring \<^verbatim>\<open>[lng, lat]\<close> from a shorter array leaves
  \<^verbatim>\<open>undefined\<close>. Reading a property of \<^verbatim>\<open>undefined\<close>, and destructuring \<^verbatim>\<open>undefined\<close>,
  throw a \<^verbatim>\<open>TypeError\<close>, which aborts the render.
\<close>

type_synonym latlng = "number option \<times> number option"

datatype polygon = Polygon nat "latlng list"

datatype marker = Marker nat latlng

datatype view = Loading | MapScreen LocationState "polygon option list" "marker list"

definition toLatLng :: "position \<Rightarrow> latlng" where
  "toLatLng p = (nth_opt p 1, nth_opt p 0)"

text \<open>
  \<^verbatim>\<open>parkingData.map((feature, index) => ...)\<close> for the polygons: a feature whose
  \<^verbatim>\<open>coordinates[0]\<close> is not an array gives \<^verbatim>\<open>null\<close>.
\<close>

fun renderPolygons :: "nat \<Rightarrow> ParkingFeature list \<Rightarrow> js_error + polygon option list" where
  "renderPolygons index [] = Inr []"
| "renderPolygons index (feature # rest) =
     (case geometry feature of
        None \<Rightarrow> Inl TypeError
      | Some g \<Rightarrow>
          (case coordinates g of
             None \<Rightarrow> Inl TypeError
           | Some rs \<Rightarrow>
               (case renderPolygons (Suc index) rest of
                  Inl e \<Rightarrow> Inl e
                | Inr ps \<Rightarrow>
                    Inr (map_option (\<lambda>r. Polygon index (map toLatLng r)) (nth_opt rs 0) # ps))))"

text \<open>
  \<^verbatim>\<open>const [lng, lat] = feature.geometry.coordinates[0][0]\<close> (line 166), giving the
  marker's coordinate. The distance computed on the next line is not used by the marker
  and cannot throw.
\<close>

definition markerCoordinate :: "ParkingFeature \<Rightarrow> js_error + latlng" where
  "markerCoordinate feature =
     (case geometry feature of
        None \<Rightarrow> Inl TypeError
      | Some g \<Rightarrow>
          (case coordinates g of
             None \<Rightarrow> Inl TypeError
           | Some rs \<Rightarrow>
               (case nth_opt rs 0 of
                  None \<Rightarrow> Inl TypeError
                | Some r \<Rightarrow>
                    (case nth_opt r 0 of
                       None \<Rightarrow> Inl TypeError
                     | Some p \<Rightarrow> Inr (toLatLng p)))))"

fun renderMarkers :: "nat \<Rightarrow> ParkingFeature list \<Rightarrow> js_error + marker list" where
  "renderMarkers index [] = Inr []"
| "renderMarkers index (feature # rest) =
     (case markerCoordinate feature of
        Inl e \<Rightarrow> Inl e
      | Inr c \<Rightarrow>
          (case renderMarkers (Suc index) rest of
             Inl e \<Rightarrow> Inl e
           | Inr ms \<Rightarrow> Inr (Marker index c # ms)))"

definition render :: "ParkingFeature list app_state \<Rightarrow> js_error + view" where
  "render st =
     (case currentLocation st of
        None \<Rightarrow> Inr Loading
      | Some region \<Rightarrow>
          (case renderPolygons 0 (parkingData st) of
             Inl e \<Rightarrow> Inl e
           | Inr polys \<Rightarrow>
               (case renderMarkers 0
                       (filteredParkingData (parkingData st) (filters st) (searchTerm st)) of
                  Inl e \<Rightarrow> Inl e
                | Inr ms \<Rightarrow> Inr (MapScreen region polys ms))))"

section \<open>Location\<close>

text \<open>
  The outcomes of \<^verbatim>\<open>Location.requestForegroundPermissionsAsync()\<close> and of
  \<^verbatim>\<open>Location.getCurrentPositionAsync({})\<close>: each may reject, which the callers catch.
  A position carries \<^verbatim>\<open>coords.latitude\<close> and \<^verbatim>\<open>coords.longitude\<close>.
\<close>

datatype permission = PermissionRejected | PermissionStatus string

datatype position_result = PositionRejected | Position number number

text \<open>
  \<^verbatim>\<open>getLocation\<close> of \<^verbatim>\<open>App.tsx\<close> (lines 64-87). The position is queried only after the
  permission is granted.
\<close>

definition getLocation ::
  "permission \<Rightarrow> position_result \<Rightarrow> 'p app_state \<Rightarrow> 'p app_state" where
  "getLocation perm pos st =
     (case perm of
        PermissionRejected \<Rightarrow>
          st\<lparr>alerts := alerts st @ [Alert ''Error'' ''Failed to get location.'']\<rparr>
      | PermissionStatus s \<Rightarrow>
          if s \<noteq> ''granted''
          then st\<lparr>alerts := alerts st @
                 [Alert ''Permission Denied'' ''Location access is required to use this app.'']\<rparr>
          else (case pos of
                  PositionRejected \<Rightarrow>
                    st\<lparr>alerts := alerts st @ [Alert ''Error'' ''Failed to get location.'']\<rparr>
                | Position la lo \<Rightarrow>
                    st\<lparr>currentLocation := Some \<lparr>latitude = la, longitude = lo,
                         latitudeDelta = 0.05, longitudeDelta = 0.05\<rparr>\<rparr>))"

text \<open>
  The hook \<^verbatim>\<open>useGeoLocation\<close> of \<^verbatim>\<open>geoLocation.tsx\<close>. Its state is
  \<^verbatim>\<open>{loaded, coordinates: {lat, lng}, error?}\<close>; the field \<^verbatim>\<open>coordinates\<close> is named
  \<open>held\<close> here, apart from the \<^verbatim>\<open>coordinates\<close> of a geometry.
\<close>

record coords =
  lat :: number
  lng :: number

record GeoLocationState =
  loaded :: bool
  held :: coords
  error :: "string option"

definition fallback :: coords where
  "fallback = \<lparr>lat = 60.1699, lng = 24.9384\<rparr>"

definition initial_location :: GeoLocationState where
  "initial_location = \<lparr>loaded = False, held = fallback, error = None\<rparr>"

text \<open>The effect run once on mount (lines 16-45): every branch replaces the whole state.\<close>

definition useGeoLocation_effect :: "permission \<Rightarrow> position_result \<Rightarrow> GeoLocationState" where
  "useGeoLocation_effect perm pos =
     (case perm of
        PermissionRejected \<Rightarrow>
          \<lparr>loaded = True, held = fallback, error = Some ''Error getting location''\<rparr>
      | PermissionStatus s \<Rightarrow>
          if s \<noteq> ''granted''
          then \<lparr>loaded = True, held = fallback,
                error = Some ''Permission to access location was denied''\<rparr>
          else (case pos of
                  PositionRejected \<Rightarrow>
                    \<lparr>loaded = True, held = fallback, error = Some ''Error getting location''\<rparr>
                | Position la lo \<Rightarrow>
                    \<lparr>loaded = True, held = \<lparr>lat = la, lng = lo\<rparr>, error = None\<rparr>))"

text \<open>
  \<^verbatim>\<open>refreshLocation\<close> (lines 47-63): a new position replaces the state; a failure keeps
  the previous state and sets \<^verbatim>\<open>error\<close>.
\<close>

definition refreshLocation :: "position_result \<Rightarrow> GeoLocationState \<Rightarrow> GeoLocationState" where
  "refreshLocation pos prev =
     (case pos of
        Position la lo \<Rightarrow> \<lparr>loaded = True, held = \<lparr>lat = la, lng = lo\<rparr>, error = None\<rparr>
      | PositionRejected \<Rightarrow> prev\<lparr>error := Some ''Error refreshing location''\<rparr>)"

section \<open>Facts about the string operations\<close>

lemma startsWith_prefix: "startsWith s t \<longleftrightarrow> prefix t s"
  by (induction s t rule: startsWith.induct) auto

lemma str_includes_sublist: "str_includes s t \<longleftrightarrow> sublist t s"
  by (induction s) (auto simp: startsWith_prefix sublist_Cons_right)

lemma str_includes_empty: "str_includes s []"
  by (cases s) auto

lemma toLowerCase_Nil: "toLowerCase [] = []"
  by (simp add: toLowerCase_def CodePointsToString_def)

text \<open>On a plain string, lowering is the simple mapping of each code unit.\<close>

lemma lookup_lower_bound:
  "list_all (\<lambda>(lo, hi, step, t). lo < b \<longrightarrow> t + (hi - lo) < b) rs \<Longrightarrow> c < b \<Longrightarrow>
   lookup_lower rs c < b"
  by (induction rs c rule: lookup_lower.induct) auto

lemma lower_rules_bmp:
  "list_all (\<lambda>(lo, hi, step, t). lo < 0x10000 \<longrightarrow> t + (hi - lo) < 0x10000) lower_rules"
  by (simp add: lower_rules_def)

lemma simple_lower_bmp: "c < 0x10000 \<Longrightarrow> simple_lower c < 0x10000"
  unfolding simple_lower_def by (rule lookup_lower_bound [OF lower_rules_bmp])

lemma plain_Cons: "plain (u # s) \<longleftrightarrow>
    ((u < 0xD800 \<or> 0xE000 \<le> u \<and> u < 0x10000) \<and> u \<noteq> 0x130 \<and> u \<noteq> 0x3A3) \<and> plain s"
  by (simp add: plain_def)

lemma plain_Nil: "plain []"
  by (simp add: plain_def)

lemma plain_code_points: "plain s \<Longrightarrow> StringToCodePoints s = s"
  by (induction s rule: StringToCodePoints.induct) (auto simp: plain_Cons)

lemma plain_toLowercase: "plain s \<Longrightarrow> toLowercase prev s = map simple_lower s"
  by (induction s arbitrary: prev) (auto simp: plain_Cons)

lemma plain_encode: "plain s \<Longrightarrow> CodePointsToString (map simple_lower s) = map simple_lower s"
proof (induction s)
  case Nil
  then show ?case by (simp add: CodePointsToString_def)
next
  case (Cons u s)
  then have "u < 0x10000" by (auto simp: plain_Cons)
  then have "simple_lower u < 0x10000" by (rule simple_lower_bmp)
  with Cons show ?case
    by (simp add: CodePointsToString_def UTF16EncodeCodePoint_def plain_Cons)
qed

lemma plain_toLowerCase: "plain s \<Longrightarrow> toLowerCase s = map simple_lower s"
  by (simp add: toLowerCase_def plain_code_points plain_toLowercase plain_encode)

text \<open>Searching the lowered term in the lowered field is matching up to case.\<close>

lemma map_eq_all2: "map f t = map f m \<longleftrightarrow> list_all2 (\<lambda>c d. f c = f d) t m"
  by (induction t arbitrary: m) (auto simp: list_all2_Cons1 Cons_eq_map_conv)

lemma sublist_map_iff:
  "sublist (map f t) (map f s) \<longleftrightarrow>
     (\<exists>pre mid suf. s = pre @ mid @ suf \<and> list_all2 (\<lambda>c d. f c = f d) t mid)"
proof
  assume "sublist (map f t) (map f s)"
  then obtain ps ss where "map f s = ps @ (map f t @ ss)"
    by (auto simp: sublist_def)
  then have "\<exists>us vs. s = us @ vs \<and> ps = map f us \<and> map f t @ ss = map f vs"
    by (simp only: map_eq_append_conv)
  then obtain pre rest where s: "s = pre @ rest" and rest: "map f t @ ss = map f rest"
    by blast
  from rest have "\<exists>us vs. rest = us @ vs \<and> map f t = map f us \<and> ss = map f vs"
    by (simp only: append_eq_map_conv)
  then obtain mid suf where "rest = mid @ suf" and "map f t = map f mid"
    by blast
  then show "\<exists>pre mid suf. s = pre @ mid @ suf \<and> list_all2 (\<lambda>c d. f c = f d) t mid"
    using s map_eq_all2 [of f t mid] by auto
next
  assume "\<exists>pre mid suf. s = pre @ mid @ suf \<and> list_all2 (\<lambda>c d. f c = f d) t mid"
  then obtain pre mid suf where s: "s = pre @ mid @ suf" and "map f t = map f mid"
    using map_eq_all2 [of f t] by auto
  then have "map f s = map f pre @ map f t @ map f suf" by simp
  then show "sublist (map f t) (map f s)"
    unfolding sublist_def by blast
qed

lemma plain_text_clause:
  "plain s \<Longrightarrow> plain t \<Longrightarrow>
   str_includes (toLowerCase s) (toLowerCase t) \<longleftrightarrow> ci_substring t s"
  unfolding ci_substring_def same_up_to_case_def
  by (simp add: plain_toLowerCase str_includes_sublist sublist_map_iff)

lemma ci_substring_Nil: "ci_substring [] s"
  unfolding ci_substring_def
  by (rule exI [of _ s], rule exI [of _ "[]"], rule exI [of _ "[]"]) simp

lemma ci_substring_exact: "sublist t s \<Longrightarrow> ci_substring t s"
proof -
  assume "sublist t s"
  then obtain ps ss where "s = ps @ t @ ss"
    by (auto simp: sublist_def)
  moreover have "list_all2 same_up_to_case t t"
    by (simp add: list_all2_same same_up_to_case_def)
  ultimately show ?thesis
    unfolding ci_substring_def by blast
qed

text \<open>Evaluations used by the examples.\<close>

lemma ascii_LotA: "ascii ''Lot A'' = [76, 111, 116, 32, 65]"
  and ascii_lot: "ascii ''lot'' = [108, 111, 116]"
  and ascii_surface: "ascii ''surface'' = [115, 117, 114, 102, 97, 99, 101]"
  and ascii_GarageB: "ascii ''Garage B'' = [71, 97, 114, 97, 103, 101, 32, 66]"
  and ascii_garage: "ascii ''garage'' = [103, 97, 114, 97, 103, 101]"
  by (simp_all add: ascii_def)

lemma lookup_lower_above:
  "list_all (\<lambda>(lo, hi, step, t). c < lo) rs \<Longrightarrow> lookup_lower rs c = c"
  by (induction rs c rule: lookup_lower.induct) auto

lemma lower_rules_tail: "list_all (\<lambda>(lo, hi, step, t). 0x80 \<le> lo) (tl lower_rules)"
  by (simp add: lower_rules_def)

lemma simple_lower_ascii:
  assumes "c < 0x80"
  shows "simple_lower c = (if 0x41 \<le> c \<and> c \<le> 0x5A then c + 32 else c)"
proof -
  define rest where "rest = tl lower_rules"
  have eq: "lower_rules = (0x41, 0x5A, 1, 0x61) # rest"
    unfolding rest_def by (simp add: lower_rules_def)
  have "list_all (\<lambda>(lo, hi, step, t). c < lo) rest"
    using lower_rules_tail assms unfolding rest_def by (auto simp: list_all_iff)
  then have "lookup_lower rest c = c"
    by (rule lookup_lower_above)
  then show ?thesis
    unfolding simple_lower_def eq by auto
qed

lemma simple_lower_eval:
  "simple_lower 0xC4 = 0xE4" "simple_lower 0xE4 = 0xE4"
  "simple_lower 0x39F = 0x3BF" "simple_lower 0x394 = 0x3B4"
  by (simp_all add: simple_lower_def lower_rules_def)

lemma plain_examples:
  "plain (ascii ''Lot A'')" "plain (ascii ''lot'')" "plain (ascii ''surface'')"
  "plain (ascii ''Garage B'')" "plain (ascii ''garage'')"
  "plain [0x4A, 0xC4, 0x72, 0x76, 0x69]" "plain [0xE4, 0x72]"
  by (simp_all add: plain_def ascii_def)

lemma lower_LotA: "toLowerCase (ascii ''Lot A'') = ascii ''lot a''"
  and lower_lot: "toLowerCase (ascii ''lot'') = ascii ''lot''"
  and lower_surface: "toLowerCase (ascii ''surface'') = ascii ''surface''"
  and lower_GarageB: "toLowerCase (ascii ''Garage B'') = ascii ''garage b''"
  and lower_garage: "toLowerCase (ascii ''garage'') = ascii ''garage''"
  by (simp_all add: plain_toLowerCase plain_examples)
    (simp_all add: ascii_def simple_lower_ascii)

lemma lower_jarvi: "toLowerCase [0x4A, 0xC4, 0x72, 0x76, 0x69] = [0x6A, 0xE4, 0x72, 0x76, 0x69]"
  and lower_ar: "toLowerCase [0xE4, 0x72] = [0xE4, 0x72]"
  by (simp_all add: plain_toLowerCase plain_examples simple_lower_eval simple_lower_ascii)

lemma Cased_omicron: "Cased 0x39F"
  by (simp add: Cased_def Cased_ranges_def)

lemma Case_Ignorable_omicron: "\<not> Case_Ignorable 0x39F"
  by (simp add: Case_Ignorable_def Case_Ignorable_ranges_def)

lemma lower_odos: "toLowerCase [0x39F, 0x394, 0x39F, 0x3A3] = [0x3BF, 0x3B4, 0x3BF, 0x3C2]"
  by (simp add: toLowerCase_def CodePointsToString_def UTF16EncodeCodePoint_def
      Final_Sigma_def cased_next_def Cased_omicron Case_Ignorable_omicron simple_lower_eval)

lemma lower_sigma: "toLowerCase [0x3A3] = [0x3C3]"
  by (simp add: toLowerCase_def CodePointsToString_def UTF16EncodeCodePoint_def
      Final_Sigma_def cased_next_def)

lemma lotA_props:
  "name (properties lotA) = ascii ''Lot A''" "tyyppi (properties lotA) = ascii ''surface''"
  "sahkoauto (properties lotA)" "\<not> inva (properties lotA)"
  by (simp_all add: lotA_def)

lemma garageB_props:
  "name (properties garageB) = ascii ''Garage B''" "tyyppi (properties garageB) = ascii ''garage''"
  "\<not> sahkoauto (properties garageB)" "inva (properties garageB)"
  by (simp_all add: garageB_def)

lemma odos_props:
  "name (properties odos) = [0x39F, 0x394, 0x39F, 0x3A3]"
  "tyyppi (properties odos) = ascii ''surface''"
  by (simp_all add: odos_def)

lemma jarvi_props:
  "name (properties jarvi) = [0x4A, 0xC4, 0x72, 0x76, 0x69]"
  "tyyppi (properties jarvi) = ascii ''surface''"
  by (simp_all add: jarvi_def)

lemma includes_lot: "str_includes (ascii ''lot a'') (ascii ''lot'')"
  by (simp add: ascii_def)

lemma filtered_lot:
  "filteredParkingData [lotA, garageB] \<lparr>electric = True, disability = False\<rparr> (ascii ''lot'') =
   [lotA]"
  by (simp add: filteredParkingData_def lotA_props garageB_props lower_LotA lower_lot
      includes_lot)

section \<open>Filter engine: the claims\<close>

text \<open>
  Claim C1, as the specification states it, fails for a feature named by the Greek word
  U+039F U+0394 U+039F U+03A3 and the search term U+03A3: the term is a substring of the
  name as it stands, hence a case-insensitive one, yet the feature is not in the output.
  \<^verbatim>\<open>toLowerCase\<close> lowers the sigma that ends the name to the final sigma U+03C2 and the
  sigma that is the whole term to U+03C3.
\<close>

theorem filteredParkingData_sigma_counterexample:
  "sublist [0x3A3] (name (properties odos))
   \<and> ci_substring [0x3A3] (name (properties odos))
   \<and> odos \<notin> set (filteredParkingData [odos] \<lparr>electric = False, disability = False\<rparr> [0x3A3])"
proof -
  have sub: "sublist [0x3A3] (name (properties odos))"
    unfolding odos_props sublist_def
    by (rule exI [of _ "[0x39F, 0x394, 0x39F]"], rule exI [of _ "[]"]) simp
  have "\<not> str_includes [0x3BF, 0x3B4, 0x3BF, 0x3C2] [0x3C3]"
    by simp
  moreover have "\<not> str_includes (ascii ''surface'') [0x3C3]"
    by (simp add: ascii_def)
  ultimately have
    "odos \<notin> set (filteredParkingData [odos] \<lparr>electric = False, disability = False\<rparr> [0x3A3])"
    by (simp add: filteredParkingData_def odos_props lower_odos lower_sigma lower_surface)
  with sub ci_substring_exact [OF sub] show ?thesis by blast
qed

text \<open>
  Claim C1, amended. The text clause compares \<^verbatim>\<open>toLowerCase\<close> of the search term with
  \<^verbatim>\<open>toLowerCase\<close> of the name and of the kind. For a term, a name and a kind without
  surrogate code units, U+0130 and U+03A3, a feature appears in the filtered output if and
  only if it is in the input, the electric toggle is off or the feature has electric
  charging, the disability toggle is off or the feature has disability access, and the
  search term is a case-insensitive substring of the feature's name or of its kind. For
  every name and kind, the empty search term satisfies the text clause.
\<close>

theorem filteredParkingData_iff_plain:
  "(plain (name (properties f)) \<and> plain (tyyppi (properties f)) \<and> plain q \<longrightarrow>
      (f \<in> set (filteredParkingData ps flt q) \<longleftrightarrow>
         f \<in> set ps \<and>
         (\<not> electric flt \<or> sahkoauto (properties f)) \<and>
         (\<not> disability flt \<or> inva (properties f)) \<and>
         (ci_substring q (name (properties f)) \<or>
          ci_substring q (tyyppi (properties f)))))
   \<and> (f \<in> set (filteredParkingData ps flt []) \<longleftrightarrow>
         f \<in> set ps \<and>
         (\<not> electric flt \<or> sahkoauto (properties f)) \<and>
         (\<not> disability flt \<or> inva (properties f)))
   \<and> ci_substring [] s"
proof -
  have "f \<in> set (filteredParkingData ps flt q) \<longleftrightarrow>
         f \<in> set ps \<and>
         (\<not> electric flt \<or> sahkoauto (properties f)) \<and>
         (\<not> disability flt \<or> inva (properties f)) \<and>
         (ci_substring q (name (properties f)) \<or>
          ci_substring q (tyyppi (properties f)))"
    if "plain (name (properties f))" "plain (tyyppi (properties f))" "plain q"
    using that by (auto simp: filteredParkingData_def plain_text_clause)
  moreover have "f \<in> set (filteredParkingData ps flt []) \<longleftrightarrow>
         f \<in> set ps \<and>
         (\<not> electric flt \<or> sahkoauto (properties f)) \<and>
         (\<not> disability flt \<or> inva (properties f))"
    by (auto simp: filteredParkingData_def toLowerCase_Nil str_includes_empty)
  ultimately show ?thesis
    using ci_substring_Nil by blast
qed

theorem filteredParkingData_iff_plain_witness:
  "plain (name (properties jarvi)) \<and> plain (tyyppi (properties jarvi)) \<and> plain [0xE4, 0x72]
   \<and> jarvi \<in> set (filteredParkingData [jarvi] \<lparr>electric = False, disability = False\<rparr>
                     [0xE4, 0x72])
   \<and> ci_substring [0xE4, 0x72] (name (properties jarvi))
   \<and> lotA \<in> set (filteredParkingData [lotA] \<lparr>electric = True, disability = False\<rparr>
                     (ascii ''lot''))
   \<and> lotA \<notin> set (filteredParkingData [lotA] \<lparr>electric = False, disability = True\<rparr> [])"
proof -
  have pl: "plain (name (properties jarvi))" "plain (tyyppi (properties jarvi))"
    "plain [0xE4, 0x72]"
    by (simp_all add: jarvi_props plain_examples)
  have ci: "ci_substring [0xE4, 0x72] (name (properties jarvi))"
    unfolding jarvi_props ci_substring_def
    by (rule exI [of _ "[0x4A]"], rule exI [of _ "[0xC4, 0x72]"], rule exI [of _ "[0x76, 0x69]"])
      (simp add: same_up_to_case_def simple_lower_eval simple_lower_ascii)
  have j: "jarvi \<in> set (filteredParkingData [jarvi] \<lparr>electric = False, disability = False\<rparr>
                     [0xE4, 0x72])"
    using filteredParkingData_iff_plain [of jarvi "[0xE4, 0x72]" "[jarvi]"
        "\<lparr>electric = False, disability = False\<rparr>" "[]", THEN conjunct1] pl ci
    by simp
  have pa: "plain (name (properties lotA))" "plain (tyyppi (properties lotA))"
    "plain (ascii ''lot'')"
    by (simp_all add: lotA_props plain_examples)
  have "ci_substring (ascii ''lot'') (name (properties lotA))"
    unfolding lotA_props ci_substring_def
    by (rule exI [of _ "[]"], rule exI [of _ "ascii ''Lot''"], rule exI [of _ "ascii '' A''"])
      (simp add: ascii_def same_up_to_case_def simple_lower_ascii)
  then have a: "lotA \<in> set (filteredParkingData [lotA] \<lparr>electric = True, disability = False\<rparr>
                     (ascii ''lot''))"
    using filteredParkingData_iff_plain [of lotA "ascii ''lot''" "[lotA]"
        "\<lparr>electric = True, disability = False\<rparr>" "[]", THEN conjunct1] pa
    by (simp add: lotA_props)
  have b: "lotA \<notin> set (filteredParkingData [lotA] \<lparr>electric = False, disability = True\<rparr> [])"
    using filteredParkingData_iff_plain [of lotA "[]" "[lotA]"
        "\<lparr>electric = False, disability = True\<rparr>" "[]", THEN conjunct2, THEN conjunct1]
    by (simp add: lotA_props)
  show ?thesis using pl ci j a b by blast
qed

text \<open>
  Claim C5. The filtered output is a subsequence of the input, in the input's order. With
  the electric toggle on every output feature has electric charging, and with the
  disability toggle on every output feature has disability access. With the empty search
  term the output is the input filtered by the two toggles alone, and with the default
  criteria (empty term, both toggles off) the output is the whole input.
\<close>

theorem filteredParkingData_structure:
  "subseq (filteredParkingData ps flt q) ps
   \<and> (electric flt \<longrightarrow>
        (\<forall>f \<in> set (filteredParkingData ps flt q). sahkoauto (properties f)))
   \<and> (disability flt \<longrightarrow>
        (\<forall>f \<in> set (filteredParkingData ps flt q). inva (properties f)))
   \<and> filteredParkingData ps flt [] =
        filter (\<lambda>f. (electric flt \<longrightarrow> sahkoauto (properties f)) \<and>
                     (disability flt \<longrightarrow> inva (properties f))) ps
   \<and> filteredParkingData ps \<lparr>electric = False, disability = False\<rparr> [] = ps"
proof -
  have "subseq (filteredParkingData ps flt q) ps"
    by (simp add: filteredParkingData_def)
  moreover have "filteredParkingData ps flt [] =
        filter (\<lambda>f. (electric flt \<longrightarrow> sahkoauto (properties f)) \<and>
                     (disability flt \<longrightarrow> inva (properties f))) ps"
    unfolding filteredParkingData_def toLowerCase_Nil
    by (rule filter_cong) (auto simp: str_includes_empty)
  moreover have
    "filteredParkingData ps \<lparr>electric = False, disability = False\<rparr> [] = ps"
    by (simp add: filteredParkingData_def toLowerCase_Nil str_includes_empty)
  ultimately show ?thesis
    by (auto simp: filteredParkingData_def)
qed

theorem filteredParkingData_structure_witness:
  "subseq [lotA] [lotA, garageB]
   \<and> sahkoauto (properties lotA)
   \<and> filteredParkingData [lotA, garageB] \<lparr>electric = True, disability = False\<rparr> [] = [lotA]
   \<and> filteredParkingData [lotA, garageB] \<lparr>electric = False, disability = False\<rparr> [] =
       [lotA, garageB]"
proof -
  note th = filteredParkingData_structure [of "[lotA, garageB]"
      "\<lparr>electric = True, disability = False\<rparr>" "ascii ''lot''"]
  have "subseq [lotA] [lotA, garageB]"
    using th [THEN conjunct1] by (simp only: filtered_lot)
  moreover have "sahkoauto (properties lotA)"
    using th [THEN conjunct2, THEN conjunct1] by (simp only: filtered_lot) simp
  moreover have
    "filteredParkingData [lotA, garageB] \<lparr>electric = True, disability = False\<rparr> [] = [lotA]"
    using th [THEN conjunct2, THEN conjunct2, THEN conjunct2, THEN conjunct1]
    by (simp add: lotA_props garageB_props)
  moreover have
    "filteredParkingData [lotA, garageB] \<lparr>electric = False, disability = False\<rparr> [] =
       [lotA, garageB]"
    using th [THEN conjunct2, THEN conjunct2, THEN conjunct2, THEN conjunct2] .
  ultimately show ?thesis by blast
qed

text \<open>
  Claim C10. Filtering is idempotent: applying the filter to its own output with the same
  criteria gives that output again.
\<close>

theorem filteredParkingData_idempotent:
  "filteredParkingData (filteredParkingData ps flt q) flt q =
   filteredParkingData ps flt q"
  by (simp add: filteredParkingData_def)

theorem filteredParkingData_idempotent_witness:
  "filteredParkingData
     (filteredParkingData [lotA] \<lparr>electric = True, disability = False\<rparr> (ascii ''lot''))
     \<lparr>electric = True, disability = False\<rparr> (ascii ''lot'') = [lotA]"
proof -
  have "filteredParkingData [lotA] \<lparr>electric = True, disability = False\<rparr> (ascii ''lot'') =
      [lotA]"
    by (simp add: filteredParkingData_def lotA_props lower_LotA lower_lot includes_lot)
  then show ?thesis
    using filteredParkingData_idempotent [of "[lotA]" "\<lparr>electric = True, disability = False\<rparr>"
        "ascii ''lot''"]
    by simp
qed

section \<open>Facts about the normalizer\<close>

lemma first_ring_nonempty_ex:
  "first_ring_nonempty f \<longleftrightarrow>
     (\<exists>g r rs. geometry f = Some g \<and> coordinates g = Some (r # rs) \<and> r \<noteq> [])"
  by (auto simp: first_ring_nonempty_def split: option.splits list.splits)

lemma keys_distinct:
  "ascii ''geometry'' \<noteq> ascii ''properties''" "ascii ''properties'' \<noteq> ascii ''geometry''"
  by (simp_all add: ascii_def)

lemma optional_simps:
  "optional get None = None"
  "optional get (Some (JObj kvs)) = get (JObj kvs)"
  "optional get (Some (JArr xs)) = get (JArr xs)"
  by (simp_all add: optional_def)

text \<open>On a feature of the declared type the check is the specification's.\<close>

lemma hasValidCoordinates_feature:
  "hasValidCoordinates (json_of_feature f) = Inr (first_ring_nonempty f)"
  by (auto simp: hasValidCoordinates_def json_of_feature_def json_of_geometry_def
      json_of_ring_def first_ring_nonempty_def keys_distinct optional_simps nth_opt_def
      greater_than_zero_def split: option.splits list.splits)

lemma validFeatures_features:
  "validFeatures (map json_of_feature fs) = Inr (map json_of_feature (filter first_ring_nonempty fs))"
  by (induction fs) (simp_all add: hasValidCoordinates_feature)

lemma member_object: "member k data = Some v \<Longrightarrow> \<exists>kvs. data = JObj kvs"
  by (cases data) simp_all

lemma emptyRing_simps: "geometry emptyRing = Some \<lparr>coordinates = Some [[]]\<rparr>"
  "properties emptyRing = properties lotA"
  by (simp_all add: emptyRing_def)

lemma noRing_simps: "geometry noRing = Some \<lparr>coordinates = Some []\<rparr>"
  "properties noRing = properties lotA"
  by (simp_all add: noRing_def)

lemma lotA_geometry: "geometry lotA = Some \<lparr>coordinates =
            Some [[[24.9, 60.1], [24.91, 60.1], [24.91, 60.11]]]\<rparr>"
  by (simp add: lotA_def)

lemma ring_examples:
  "first_ring_nonempty lotA" "\<not> first_ring_nonempty garageB"
  "\<not> first_ring_nonempty noRing" "\<not> first_ring_nonempty emptyRing"
  by (simp_all add: first_ring_nonempty_def lotA_geometry emptyRing_simps noRing_simps
      garageB_def)

section \<open>Facts about the two fetch functions\<close>

lemma plain_success:
  "member (ascii ''features'') data = Some v \<Longrightarrow> truthy v \<Longrightarrow>
   fetchParkingData (Decoded data) st = st\<lparr>parkingData := v\<rparr>"
  by (auto simp: fetchParkingData_def fetchParkingData_try_def dest: member_object)


lemma validating_success:
  "member (ascii ''features'') data = Some (json_of_features fs) \<Longrightarrow>
   fetchParkingData_validating (Decoded data) st =
     st\<lparr>parkingData := json_of_features (filter first_ring_nonempty fs)\<rparr>"
  by (auto simp: fetchParkingData_validating_def fetchParkingData_validating_try_def
      json_of_features_def validFeatures_features dest: member_object)




lemma at_run_time_update:
  "(at_run_time st)\<lparr>parkingData := json_of_features fs\<rparr> = at_run_time (st\<lparr>parkingData := fs\<rparr>)"
  by (simp add: at_run_time_def)

lemma initial_run_time:
  "at_run_time initial_state = \<lparr>parkingData = JArr [], currentLocation = None, searchTerm = [],
     filters = \<lparr>electric = False, disability = False\<rparr>, alerts = []\<rparr>"
  by (simp add: at_run_time_def initial_state_def json_of_features_def)

lemma features_member:
  "member (ascii ''features'') (JObj [(ascii ''features'', v)]) = Some v"
  by simp

section \<open>Feature normalizer and ingestion: the claims\<close>

text \<open>
  Claim C2 fails on the code at two inputs. In the validating variant a \<^verbatim>\<open>null\<close> element
  of \<^verbatim>\<open>features\<close> makes the callback throw: the batch is aborted with an alert and nothing
  is stored, although the other element is valid; without the \<^verbatim>\<open>null\<close> that element is
  kept. \<^verbatim>\<open>fetchParkingData\<close> of \<^verbatim>\<open>App.tsx\<close> has no check at all: a feature whose first ring
  is empty is stored.
\<close>

theorem normalizer_failing_inputs:
  "fetchParkingData_validating
      (Decoded (JObj [(ascii ''features'', JArr [JNull, json_of_feature lotA])]))
      (at_run_time initial_state) =
     (at_run_time initial_state)\<lparr>alerts := [Alert ''Error''
        ''Failed to fetch parking data. Please check your connection and try again.'']\<rparr>
   \<and> fetchParkingData_validating
      (Decoded (JObj [(ascii ''features'', json_of_features [lotA])]))
      (at_run_time initial_state) = at_run_time (initial_state\<lparr>parkingData := [lotA]\<rparr>)
   \<and> fetchParkingData
      (Decoded (JObj [(ascii ''features'', json_of_features [emptyRing])]))
      (at_run_time initial_state) = at_run_time (initial_state\<lparr>parkingData := [emptyRing]\<rparr>)
   \<and> \<not> first_ring_nonempty emptyRing"
proof -
  have "hasValidCoordinates JNull = Inl TypeError"
    by (simp add: hasValidCoordinates_def)
  then have "fetchParkingData_validating
      (Decoded (JObj [(ascii ''features'', JArr [JNull, json_of_feature lotA])]))
      (at_run_time initial_state) =
     (at_run_time initial_state)\<lparr>alerts := [Alert ''Error''
        ''Failed to fetch parking data. Please check your connection and try again.'']\<rparr>"
    by (simp add: fetchParkingData_validating_def fetchParkingData_validating_try_def
        initial_run_time)
  moreover have "fetchParkingData_validating
      (Decoded (JObj [(ascii ''features'', json_of_features [lotA])]))
      (at_run_time initial_state) = at_run_time (initial_state\<lparr>parkingData := [lotA]\<rparr>)"
    using validating_success [OF features_member, of "[lotA]" "at_run_time initial_state"]
    by (simp add: ring_examples at_run_time_update)
  moreover have "fetchParkingData
      (Decoded (JObj [(ascii ''features'', json_of_features [emptyRing])]))
      (at_run_time initial_state) = at_run_time (initial_state\<lparr>parkingData := [emptyRing]\<rparr>)"
    using plain_success [OF features_member, of "json_of_features [emptyRing]"
        "at_run_time initial_state"]
    by (simp add: json_of_features_def at_run_time_def)
  ultimately show ?thesis
    using ring_examples by blast
qed




section \<open>Facts about rendering\<close>

lemma markerCoordinate_defined:
  "(\<exists>c. markerCoordinate f = Inr c) \<longleftrightarrow> first_ring_nonempty f"
  by (auto simp: markerCoordinate_def first_ring_nonempty_def nth_opt_def
      split: option.splits list.splits)

lemma markerCoordinate_error:
  "\<not> first_ring_nonempty f \<Longrightarrow> markerCoordinate f = Inl TypeError"
  by (auto simp: markerCoordinate_def first_ring_nonempty_def nth_opt_def
      split: option.splits list.splits)

lemma renderMarkers_error:
  "f \<in> set fs \<Longrightarrow> \<not> first_ring_nonempty f \<Longrightarrow> renderMarkers i fs = Inl TypeError"
proof (induction fs arbitrary: i)
  case Nil
  then show ?case by simp
next
  case (Cons a fs)
  show ?case
  proof (cases "first_ring_nonempty a")
    case True
    with Cons.prems have "f \<in> set fs" by auto
    then have "renderMarkers (Suc i) fs = Inl TypeError"
      using Cons.IH Cons.prems(2) by blast
    moreover obtain c where "markerCoordinate a = Inr c"
      using True markerCoordinate_defined by blast
    ultimately show ?thesis by simp
  next
    case False
    then show ?thesis by (simp add: markerCoordinate_error)
  qed
qed

lemma renderPolygons_error: "renderPolygons i fs = Inl e \<Longrightarrow> e = TypeError"
  by (induction fs arbitrary: i) (auto split: option.splits sum.splits)

lemma render_error:
  assumes "currentLocation st = Some region"
    and "f \<in> set (filteredParkingData (parkingData st) (filters st) (searchTerm st))"
    and "\<not> first_ring_nonempty f"
  shows "render st = Inl TypeError"
proof (cases "renderPolygons 0 (parkingData st)")
  case (Inl e)
  then show ?thesis
    using assms(1) renderPolygons_error [OF Inl] by (simp add: render_def)
next
  case (Inr polys)
  then show ?thesis
    using assms(1) renderMarkers_error [OF assms(2,3)] by (simp add: render_def)
qed

lemma emptyRing_invalid: "\<not> first_ring_nonempty emptyRing" "\<not> first_ring_nonempty noRing"
  by (simp_all add: ring_examples)

lemma emptyRing_passes: "filteredParkingData [lotA, emptyRing] \<lparr>electric = False, disability = False\<rparr> []
   = [lotA, emptyRing]"
  by (simp add: filteredParkingData_def toLowerCase_Nil str_includes_empty)

section \<open>Marker rendering: the claim\<close>

text \<open>
  Claim C4. \<^verbatim>\<open>fetchParkingData\<close> of \<^verbatim>\<open>App.tsx\<close> stores the fetched \<^verbatim>\<open>features\<close> value with no
  validation, whatever it is. The marker coordinate \<^verbatim>\<open>feature.geometry.coordinates[0][0]\<close>
  is defined exactly for the features whose first ring is present and non-empty, and is a
  \<^verbatim>\<open>TypeError\<close> for every other feature. Once the location is known, a fetched feature
  without such a ring that passes the filter makes the render throw, and such an input
  exists.
\<close>

theorem marker_extraction_unsafe:
  "(member (ascii ''features'') data = Some v \<and> truthy v \<longrightarrow>
      parkingData (fetchParkingData (Decoded data) rst) = v)
   \<and> ((\<exists>c. markerCoordinate f = Inr c) \<longleftrightarrow>
        (\<exists>g r rs. geometry f = Some g \<and> coordinates g = Some (r # rs) \<and> r \<noteq> []))
   \<and> (\<not> (\<exists>g r rs. geometry f = Some g \<and> coordinates g = Some (r # rs) \<and> r \<noteq> []) \<longrightarrow>
        markerCoordinate f = Inl TypeError)
   \<and> (member (ascii ''features'') data = Some (json_of_features fs) \<and>
       currentLocation st = Some region \<and>
       f \<in> set (filteredParkingData fs (filters st) (searchTerm st)) \<and>
       \<not> (\<exists>g r rs. geometry f = Some g \<and> coordinates g = Some (r # rs) \<and> r \<noteq> []) \<longrightarrow>
        fetchParkingData (Decoded data) (at_run_time st) = at_run_time (st\<lparr>parkingData := fs\<rparr>) \<and>
        render (st\<lparr>parkingData := fs\<rparr>) = Inl TypeError)
   \<and> (\<exists>data' fs' st' f'.
        member (ascii ''features'') data' = Some (json_of_features fs') \<and> f' \<in> set fs' \<and>
        fetchParkingData (Decoded data') (at_run_time st') =
          at_run_time (st'\<lparr>parkingData := fs'\<rparr>) \<and>
        markerCoordinate f' = Inl TypeError \<and>
        render (st'\<lparr>parkingData := fs'\<rparr>) = Inl TypeError)"
proof -
  have stored: "parkingData (fetchParkingData (Decoded data) rst) = v"
    if "member (ascii ''features'') data = Some v" "truthy v" for data v
      and rst :: "json app_state"
    using that by (simp add: plain_success)
  have typed: "fetchParkingData (Decoded data) (at_run_time st) =
      at_run_time (st\<lparr>parkingData := fs\<rparr>)"
    if "member (ascii ''features'') data = Some (json_of_features fs)" for data fs st
    using plain_success [OF that, of "at_run_time st"]
    by (simp add: json_of_features_def at_run_time_def)
  have crash: "render (st\<lparr>parkingData := fs\<rparr>) = Inl TypeError"
    if "currentLocation st = Some region"
      "f \<in> set (filteredParkingData fs (filters st) (searchTerm st))"
      "\<not> first_ring_nonempty f" for fs st region f
    using that by (intro render_error [where region = region and f = f]) simp_all
  let ?d = "JObj [(ascii ''features'', json_of_features [lotA, emptyRing])]"
  let ?s = "initial_state\<lparr>currentLocation := Some helsinki\<rparr>"
  have "member (ascii ''features'') ?d = Some (json_of_features [lotA, emptyRing])"
    by simp
  moreover have "emptyRing \<in> set [lotA, emptyRing]"
    by simp
  moreover have "fetchParkingData (Decoded ?d) (at_run_time ?s) =
      at_run_time (?s\<lparr>parkingData := [lotA, emptyRing]\<rparr>)"
    by (rule typed) simp
  moreover have "markerCoordinate emptyRing = Inl TypeError"
    by (simp add: markerCoordinate_error emptyRing_invalid)
  moreover have "render (?s\<lparr>parkingData := [lotA, emptyRing]\<rparr>) = Inl TypeError"
    by (rule crash [where f = emptyRing and region = helsinki])
      (simp_all add: initial_state_def emptyRing_passes emptyRing_invalid)
  ultimately have ex: "\<exists>data' fs' st' f'.
        member (ascii ''features'') data' = Some (json_of_features fs') \<and> f' \<in> set fs' \<and>
        fetchParkingData (Decoded data') (at_run_time st') =
          at_run_time (st'\<lparr>parkingData := fs'\<rparr>) \<and>
        markerCoordinate f' = Inl TypeError \<and>
        render (st'\<lparr>parkingData := fs'\<rparr>) = Inl TypeError"
    by blast
  show ?thesis
    using stored [of data v rst] typed [of data fs st] crash [of st region f fs]
      ex markerCoordinate_defined [of f] markerCoordinate_error [of f]
    unfolding first_ring_nonempty_ex by blast
qed

theorem marker_extraction_unsafe_witness:
  "parkingData (fetchParkingData
       (Decoded (JObj [(ascii ''features'', json_of_features [lotA, emptyRing])]))
       (at_run_time (initial_state\<lparr>currentLocation := Some helsinki\<rparr>))) =
     json_of_features [lotA, emptyRing]
   \<and> markerCoordinate emptyRing = Inl TypeError
   \<and> fetchParkingData
       (Decoded (JObj [(ascii ''features'', json_of_features [lotA, emptyRing])]))
       (at_run_time (initial_state\<lparr>currentLocation := Some helsinki\<rparr>)) =
     at_run_time (initial_state\<lparr>currentLocation := Some helsinki,
                                parkingData := [lotA, emptyRing]\<rparr>)
   \<and> render (initial_state\<lparr>currentLocation := Some helsinki,
                            parkingData := [lotA, emptyRing]\<rparr>) = Inl TypeError"
proof -
  let ?d = "JObj [(ascii ''features'', json_of_features [lotA, emptyRing])]"
  let ?s = "initial_state\<lparr>currentLocation := Some helsinki\<rparr>"
  note th = marker_extraction_unsafe [of ?d "json_of_features [lotA, emptyRing]"
      "at_run_time ?s" emptyRing "[lotA, emptyRing]" ?s helsinki]
  have bad: "\<not> (\<exists>g r rs. geometry emptyRing = Some g \<and> coordinates g = Some (r # rs) \<and> r \<noteq> [])"
    by (simp add: emptyRing_simps)
  have m: "member (ascii ''features'') ?d = Some (json_of_features [lotA, emptyRing])"
    "truthy (json_of_features [lotA, emptyRing])"
    by (simp_all add: json_of_features_def)
  have "parkingData (fetchParkingData (Decoded ?d) (at_run_time ?s)) =
      json_of_features [lotA, emptyRing]"
    using th [THEN conjunct1] m by blast
  moreover have "markerCoordinate emptyRing = Inl TypeError"
    using th [THEN conjunct2, THEN conjunct2, THEN conjunct1] bad by blast
  moreover have "fetchParkingData (Decoded ?d) (at_run_time ?s) =
      at_run_time (?s\<lparr>parkingData := [lotA, emptyRing]\<rparr>) \<and>
      render (?s\<lparr>parkingData := [lotA, emptyRing]\<rparr>) = Inl TypeError"
  proof -
    have "currentLocation ?s = Some helsinki"
      "emptyRing \<in> set (filteredParkingData [lotA, emptyRing] (filters ?s) (searchTerm ?s))"
      by (simp_all add: initial_state_def emptyRing_passes)
    then show ?thesis
      using th [THEN conjunct2, THEN conjunct2, THEN conjunct2, THEN conjunct1] bad m(1)
      by blast
  qed
  ultimately show ?thesis by simp
qed

section \<open>Location: the claims\<close>

text \<open>
  Claim C6, as the specification states it, fails for \<^verbatim>\<open>App.tsx\<close>: after a denied
  permission, from the initial state, \<^verbatim>\<open>currentLocation\<close> is still \<^verbatim>\<open>null\<close> and the
  component renders the loading view, not a map centred on the fallback coordinate.
\<close>

theorem permission_denied_counterexample:
  "currentLocation (getLocation (PermissionStatus ''denied'') (Position 60.2 24.9) initial_state) = None
   \<and> render (getLocation (PermissionStatus ''denied'') (Position 60.2 24.9) initial_state) = Inr Loading"
  by (simp add: getLocation_def render_def initial_state_def)

text \<open>
  Claim C6, amended. When the permission is denied at startup, the state of the hook
  \<^verbatim>\<open>useGeoLocation\<close> becomes loaded, holds the fallback coordinate (60.1699, 24.9384)
  and has its error set. The \<^verbatim>\<open>App\<close> component keeps its own \<^verbatim>\<open>currentLocation\<close> and does
  not call the hook: it raises the alert "Permission Denied" and changes nothing else, so
  while \<^verbatim>\<open>currentLocation\<close> is \<^verbatim>\<open>null\<close> it renders the loading view.
\<close>

theorem permission_denied_behaviour:
  "s \<noteq> ''granted'' \<Longrightarrow>
     useGeoLocation_effect (PermissionStatus s) pos =
       \<lparr>loaded = True, held = \<lparr>lat = 60.1699, lng = 24.9384\<rparr>,
        error = Some ''Permission to access location was denied''\<rparr>
     \<and> getLocation (PermissionStatus s) pos st =
         st\<lparr>alerts := alerts st @
           [Alert ''Permission Denied'' ''Location access is required to use this app.'']\<rparr>
     \<and> (currentLocation st = None \<longrightarrow>
          render (getLocation (PermissionStatus s) pos st) = Inr Loading)"
  by (simp add: useGeoLocation_effect_def getLocation_def render_def fallback_def)

theorem permission_denied_behaviour_witness:
  "useGeoLocation_effect (PermissionStatus ''denied'') PositionRejected =
       \<lparr>loaded = True, held = \<lparr>lat = 60.1699, lng = 24.9384\<rparr>,
        error = Some ''Permission to access location was denied''\<rparr>
   \<and> getLocation (PermissionStatus ''denied'') PositionRejected initial_state =
         initial_state\<lparr>alerts :=
           [Alert ''Permission Denied'' ''Location access is required to use this app.'']\<rparr>
   \<and> render (getLocation (PermissionStatus ''denied'') PositionRejected initial_state) = Inr Loading"
proof -
  have d: "''denied'' \<noteq> ''granted''" by simp
  note th = permission_denied_behaviour [OF d, of PositionRejected initial_state]
  have "getLocation (PermissionStatus ''denied'') PositionRejected initial_state =
         initial_state\<lparr>alerts :=
           [Alert ''Permission Denied'' ''Location access is required to use this app.'']\<rparr>"
    using th [THEN conjunct2, THEN conjunct1] by (simp add: initial_state_def)
  moreover have
    "render (getLocation (PermissionStatus ''denied'') PositionRejected initial_state) = Inr Loading"
    using th [THEN conjunct2, THEN conjunct2] by (simp add: initial_state_def)
  ultimately show ?thesis using th [THEN conjunct1] by blast
qed

section \<open>Location refresh: the claim\<close>

lemma refresh_rejected_held: "held (refreshLocation PositionRejected prev) = held prev"
  by (simp add: refreshLocation_def)

lemma refresh_rejected_fold:
  "held (fold refreshLocation (replicate n PositionRejected) prev) = held prev"
  by (induction n arbitrary: prev) (simp_all add: refresh_rejected_held)

text \<open>
  Claim C8. A failed \<^verbatim>\<open>refreshLocation\<close> changes only the error, which it sets: the held
  coordinate and \<^verbatim>\<open>loaded\<close> stay as they were. A successful one replaces the held
  coordinate by the queried position. After a successful fix, any number of failed
  refreshes still hold that fix, never the fallback.
\<close>

theorem refreshLocation_frame:
  "refreshLocation PositionRejected prev = prev\<lparr>error := Some ''Error refreshing location''\<rparr>
   \<and> held (refreshLocation PositionRejected prev) = held prev
   \<and> loaded (refreshLocation PositionRejected prev) = loaded prev
   \<and> error (refreshLocation PositionRejected prev) \<noteq> None
   \<and> held (refreshLocation (Position la lo) prev) = \<lparr>lat = la, lng = lo\<rparr>
   \<and> held (fold refreshLocation (replicate n PositionRejected)
             (refreshLocation (Position la lo) prev)) = \<lparr>lat = la, lng = lo\<rparr>"
  unfolding refresh_rejected_fold by (simp add: refreshLocation_def)

theorem refreshLocation_frame_witness:
  "held (refreshLocation PositionRejected
          (useGeoLocation_effect (PermissionStatus ''granted'') (Position 60.2 24.9))) =
     \<lparr>lat = 60.2, lng = 24.9\<rparr>
   \<and> held (refreshLocation PositionRejected
          (refreshLocation (Position 61.5 23.8) initial_location)) = \<lparr>lat = 61.5, lng = 23.8\<rparr>
   \<and> held (refreshLocation PositionRejected
          (refreshLocation (Position 61.5 23.8) initial_location)) \<noteq> fallback"
proof -
  have "held (refreshLocation PositionRejected
          (useGeoLocation_effect (PermissionStatus ''granted'') (Position 60.2 24.9))) =
     \<lparr>lat = 60.2, lng = 24.9\<rparr>"
    using refreshLocation_frame [of "useGeoLocation_effect (PermissionStatus ''granted'')
        (Position 60.2 24.9)" 0 0 0, THEN conjunct2, THEN conjunct1]
    by (simp add: useGeoLocation_effect_def)
  moreover have b: "held (refreshLocation PositionRejected
          (refreshLocation (Position 61.5 23.8) initial_location)) = \<lparr>lat = 61.5, lng = 23.8\<rparr>"
    using refreshLocation_frame [of initial_location "61.5" "23.8" 1,
        THEN conjunct2, THEN conjunct2, THEN conjunct2, THEN conjunct2, THEN conjunct2]
    by simp
  moreover have "held (refreshLocation PositionRejected
          (refreshLocation (Position 61.5 23.8) initial_location)) \<noteq> fallback"
    unfolding b by (simp add: fallback_def)
  ultimately show ?thesis by blast
qed

end
